theory Spec2Isabelle
  imports Main "HOL-Library.Word"
begin

section \<open>JavaScript strings\<close>

text \<open>
  A JavaScript string is a sequence of UTF-16 code units; \<open>trim\<close>, \<open>===\<close> and a regular
  expression without the \<open>u\<close> flag all work on code units. String literals of the source
  are ASCII and are written \<open>js ''...''\<close>.
\<close>

type_synonym jschar = "16 word"
type_synonym jsstring = "jschar list"

definition js :: "string \<Rightarrow> jsstring" where
  "js s = map of_char s"

text \<open>
  ECMAScript \<open>WhiteSpace\<close> and \<open>LineTerminator\<close> code units: TAB, LF, VT, FF, CR, SP,
  NBSP, U+1680, U+2000..U+200A, LS, PS, U+202F, U+205F, U+3000 and U+FEFF. This is
  both what \<open>String.prototype.trim\<close> strips and what \<open>\s\<close> matches.
\<close>

definition isWhiteSpace :: "jschar \<Rightarrow> bool" where
  "isWhiteSpace c \<longleftrightarrow>
     (0x09 \<le> c \<and> c \<le> 0x0D) \<or> c = 0x20 \<or> c = 0xA0 \<or> c = 0x1680 \<or>
     (0x2000 \<le> c \<and> c \<le> 0x200A) \<or> c = 0x2028 \<or> c = 0x2029 \<or> c = 0x202F \<or>
     c = 0x205F \<or> c = 0x3000 \<or> c = 0xFEFF"

definition trim :: "jsstring \<Rightarrow> jsstring" where
  "trim s = rev (dropWhile isWhiteSpace (rev (dropWhile isWhiteSpace s)))"

section \<open>Regular expressions\<close>

text \<open>
  The two patterns of the source use character classes, literal characters, sequencing
  and \<open>+\<close>, between \<open>^\<close> and \<open>$\<close>. \<open>RegExp.prototype.test\<close> on such a pattern (no
  flags, so no \<open>lastIndex\<close> and \<open>^\<close>/\<open>$\<close> are the ends of the input) says whether the
  whole input is matched. The matcher below decides that by taking the residual of the
  pattern after each code unit.
\<close>

datatype cls_item = CChar jschar | CRange jschar jschar | CSpace

datatype pattern =
    PFail
  | PEmpty
  | PSet "cls_item list"
  | PNotSet "cls_item list"
  | PChar jschar
  | PSeq pattern pattern
  | PAlt pattern pattern
  | PStar pattern
  | PPlus pattern

fun item_has :: "cls_item \<Rightarrow> jschar \<Rightarrow> bool" where
  "item_has (CChar d) c = (c = d)"
| "item_has (CRange lo hi) c = (lo \<le> c \<and> c \<le> hi)"
| "item_has CSpace c = isWhiteSpace c"

definition in_class :: "cls_item list \<Rightarrow> jschar \<Rightarrow> bool" where
  "in_class items c = list_ex (\<lambda>i. item_has i c) items"

fun accepts_empty :: "pattern \<Rightarrow> bool" where
  "accepts_empty PFail = False"
| "accepts_empty PEmpty = True"
| "accepts_empty (PSet items) = False"
| "accepts_empty (PNotSet items) = False"
| "accepts_empty (PChar d) = False"
| "accepts_empty (PSeq p q) = (accepts_empty p \<and> accepts_empty q)"
| "accepts_empty (PAlt p q) = (accepts_empty p \<or> accepts_empty q)"
| "accepts_empty (PStar p) = True"
| "accepts_empty (PPlus p) = accepts_empty p"

fun residual :: "jschar \<Rightarrow> pattern \<Rightarrow> pattern" where
  "residual c PFail = PFail"
| "residual c PEmpty = PFail"
| "residual c (PSet items) = (if in_class items c then PEmpty else PFail)"
| "residual c (PNotSet items) = (if in_class items c then PFail else PEmpty)"
| "residual c (PChar d) = (if c = d then PEmpty else PFail)"
| "residual c (PSeq p q) =
     (if accepts_empty p then PAlt (PSeq (residual c p) q) (residual c q)
      else PSeq (residual c p) q)"
| "residual c (PAlt p q) = PAlt (residual c p) (residual c q)"
| "residual c (PStar p) = PSeq (residual c p) (PStar p)"
| "residual c (PPlus p) = PSeq (residual c p) (PStar p)"

definition regex_test :: "pattern \<Rightarrow> jsstring \<Rightarrow> bool" where
  "regex_test p s = accepts_empty (foldl (\<lambda>q c. residual c q) p s)"

section \<open>Validator\<close>

text \<open>\<open>/^[^\s@]+@[^\s@]+\.[^\s@]+$/\<close>\<close>

definition emailRegex :: pattern where
  "emailRegex =
     PSeq (PPlus (PNotSet [CSpace, CChar (of_char CHR ''@'')]))
    (PSeq (PChar (of_char CHR ''@''))
    (PSeq (PPlus (PNotSet [CSpace, CChar (of_char CHR ''@'')]))
    (PSeq (PChar (of_char CHR ''.''))
          (PPlus (PNotSet [CSpace, CChar (of_char CHR ''@'')])))))"

definition isValidEmail :: "jsstring \<Rightarrow> bool" where
  "isValidEmail email = regex_test emailRegex email"

text \<open>\<open>/^[a-zA-Z\s'-]+$/\<close>\<close>

definition nameRegex :: pattern where
  "nameRegex =
     PPlus (PSet [CRange (of_char CHR ''a'') (of_char CHR ''z''),
                  CRange (of_char CHR ''A'') (of_char CHR ''Z''),
                  CSpace, CChar 0x27, CChar (of_char CHR ''-'')])"

definition isValidName :: "jsstring \<Rightarrow> bool" where
  "isValidName name = regex_test nameRegex name"

text \<open>
  A form control (an \<open>input\<close> or \<open>select\<close> of the form) with the inline error the
  page shows for it: the text of the \<open>.error-message\<close> element of its form group, if
  there is one, and whether the control carries the class \<open>error\<close>. The markup is not
  part of the sources; each control is taken to sit in a form group of its own.
\<close>

record control =
  field_name :: jsstring
  field_value :: jsstring
  field_required :: bool
  field_default :: jsstring
  inline_error :: "jsstring option"
  error_class :: bool

definition showFieldError :: "control \<Rightarrow> jsstring \<Rightarrow> control" where
  "showFieldError field msg = field\<lparr>inline_error := Some msg, error_class := True\<rparr>"

definition clearFieldError :: "control \<Rightarrow> control" where
  "clearFieldError field = field\<lparr>inline_error := None, error_class := False\<rparr>"

text \<open>
  \<open>validateField\<close> returns its boolean and the control as the page then shows it. The
  three \<open>if\<close> statements of the source run in their order, each overwriting
  \<open>errorMessage\<close>. The empty string is JavaScript's only falsy string, so \<open>!value\<close> is
  \<open>val = []\<close> and \<open>if (errorMessage)\<close> is \<open>errorMessage \<noteq> []\<close>.
\<close>

definition validateField :: "control \<Rightarrow> bool \<times> control" where
  "validateField field =
     (let val = trim (field_value field);
          fieldName = field_name field;
          cleared = clearFieldError field;
          m0 = [];
          m1 = (if val = [] then js ''This field is required'' else m0);
          m2 = (if fieldName = js ''email'' \<and> val \<noteq> [] \<and> \<not> isValidEmail val
                then js ''Please enter a valid email address'' else m1);
          m3 = (if (fieldName = js ''firstName'' \<or> fieldName = js ''lastName'') \<and> val \<noteq> []
                then (if \<not> isValidName val then js ''Please use letters only'' else m2)
                else m2);
          errorMessage = m3
      in if errorMessage \<noteq> [] then (False, showFieldError cleared errorMessage)
         else (True, cleared))"

section \<open>Values, errors and outcomes\<close>

text \<open>
  A value that \<open>JSON.parse\<close> can return. Numbers are IEEE doubles; the code never
  computes with one, so their type is left open. A \<open>JObj\<close> lists the own properties of
  the object, each key once.
\<close>

typedecl jsnumber

datatype json =
    JNull
  | JBool bool
  | JNum jsnumber
  | JStr jsstring
  | JArr "json list"
  | JObj "(jsstring \<times> json) list"

text \<open>What the code can catch: every thrown value here is an object with a \<open>message\<close>.\<close>

datatype js_error =
    Error jsstring
  | TypeError jsstring
  | SyntaxError jsstring
  | DOMException jsstring

fun err_message :: "js_error \<Rightarrow> jsstring" where
  "err_message (Error m) = m"
| "err_message (TypeError m) = m"
| "err_message (SyntaxError m) = m"
| "err_message (DOMException m) = m"

text \<open>
  The object a submission resolves to: \<open>{success, message}\<close> or \<open>{success, data}\<close>; a
  property the object does not have is \<open>None\<close>.
\<close>

record outcome =
  success :: bool
  message :: "jsstring option"
  data :: "json option"

text \<open>The object \<open>collectFormData\<close> builds, in the order of its properties.\<close>

record form_data =
  firstName :: jsstring
  lastName :: jsstring
  email :: jsstring
  company :: jsstring
  interest :: "jsstring option"
  newsletter :: bool
  timestamp :: jsstring
  userAgent :: jsstring
  referrer :: jsstring

definition data_props :: "form_data \<Rightarrow> (jsstring \<times> json) list" where
  "data_props d =
     [(js ''firstName'', JStr (firstName d)),
      (js ''lastName'', JStr (lastName d)),
      (js ''email'', JStr (email d)),
      (js ''company'', JStr (company d)),
      (js ''interest'', (case interest d of None \<Rightarrow> JNull | Some i \<Rightarrow> JStr i)),
      (js ''newsletter'', JBool (newsletter d)),
      (js ''timestamp'', JStr (timestamp d)),
      (js ''userAgent'', JStr (userAgent d)),
      (js ''referrer'', JStr (referrer d))]"

section \<open>The page, the storage and the environment\<close>

datatype timer_action = RemoveBanner nat | RevealSuccess

text \<open>
  The part of the document the class touches. A banner is a \<open>.form-error-message\<close>
  element of the form, first child first, with the number of its node and its text.
  \<open>FormData.get('newsletter')\<close> is the value attribute of the checkbox when it is
  checked and \<open>null\<close> otherwise.
\<close>

record page =
  controls :: "control list"
  newsletter_checked :: bool
  newsletter_attr :: jsstring
  banners :: "(nat \<times> jsstring) list"
  next_node :: nat
  timers :: "(nat \<times> timer_action) list"
  submit_disabled :: bool
  form_hidden :: bool
  success_shown :: bool

text \<open>
  A string kept by \<open>localStorage\<close>, by what \<open>JSON.parse\<close> makes of it: a text it
  rejects (the empty string is one), or a JSON text with the value it denotes.
  \<open>JSON.parse\<close> and \<open>JSON.stringify\<close> are the engine's and have no model of their
  own: \<open>JSON.stringify\<close> of a value built from parsed values, strings, booleans and
  \<open>null\<close> is a text denoting that value.
\<close>

datatype item = Unparseable jsstring | Encoded json

datatype event =
    Posted json
  | GotItem jsstring
  | SetItem jsstring json
  | Warned js_error
  | Logged js_error

text \<open>
  The world the handler runs in: the page, the storage, and what the code did outside
  the page, in order (requests, accesses to the storage, lines on the console).
\<close>

record world =
  page :: page
  localStorage :: "jsstring \<rightharpoonup> item"
  trace :: "event list"

datatype fetch_result =
    Rejected js_error
  | Responded nat "js_error + json"

text \<open>
  What the code does not decide: the endpoint (\<open>fetch\<close> gives, for the posted body,
  a rejection or a status with what \<open>response.json()\<close> settles to), faults of the
  storage, the clock, the navigator, and the engine (lower-casing beyond ASCII, the
  texts of its own errors, \<open>ToString\<close> and the truthiness of numbers).
\<close>

record env =
  fetch :: "json \<Rightarrow> fetch_result"
  getItemFault :: "js_error option"
  setItemFault :: "jsstring \<Rightarrow> json \<Rightarrow> js_error option"
  collectIso :: jsstring
  nowMillis :: nat
  submittedIso :: jsstring
  navigatorUserAgent :: jsstring
  documentReferrer :: jsstring
  lowerNonAscii :: "jsstring \<Rightarrow> jsstring"
  syntaxErrorText :: "jsstring \<Rightarrow> jsstring"
  notAFunctionText :: "jsstring \<Rightarrow> jsstring"
  nullPropertyText :: "jsstring \<Rightarrow> jsstring"
  toStringText :: "json \<Rightarrow> jsstring"
  numberTruthy :: "jsnumber \<Rightarrow> bool"

section \<open>Built-ins the code calls\<close>

definition toLowerCase :: "env \<Rightarrow> jsstring \<Rightarrow> jsstring" where
  "toLowerCase e s =
     (if list_all (\<lambda>c. c < 0x80) s
      then map (\<lambda>c. if 0x41 \<le> c \<and> c \<le> 0x5A then c + 0x20 else c) s
      else lowerNonAscii e s)"

fun decimal :: "nat \<Rightarrow> jsstring" where
  "decimal n = (if n < 10 then [of_nat (48 + n)]
                else decimal (n div 10) @ [of_nat (48 + n mod 10)])"

declare decimal.simps [simp del]

text \<open>Reading a property: \<open>null\<close> has none and throws; only an object has own ones.\<close>

fun own_prop :: "json \<Rightarrow> jsstring \<Rightarrow> json option" where
  "own_prop (JObj kvs) k = map_of kvs k"
| "own_prop v k = None"

definition get_prop :: "env \<Rightarrow> json \<Rightarrow> jsstring \<Rightarrow> js_error + json option" where
  "get_prop e v k = (if v = JNull then Inl (TypeError (nullPropertyText e k)) else Inr (own_prop v k))"

fun truthy :: "env \<Rightarrow> json option \<Rightarrow> bool" where
  "truthy e None = False"
| "truthy e (Some JNull) = False"
| "truthy e (Some (JBool b)) = b"
| "truthy e (Some (JNum n)) = numberTruthy e n"
| "truthy e (Some (JStr s)) = (s \<noteq> [])"
| "truthy e (Some (JArr xs)) = True"
| "truthy e (Some (JObj kvs)) = True"

fun to_string :: "env \<Rightarrow> json \<Rightarrow> jsstring" where
  "to_string e (JStr s) = s"
| "to_string e v = toStringText e v"

definition response_ok :: "nat \<Rightarrow> bool" where
  "response_ok status \<longleftrightarrow> 200 \<le> status \<and> status \<le> 299"

text \<open>
  \<open>try { ... } catch (error) { ... }\<close> and \<open>finally\<close>: a block gives what it returns
  or throws, with the world as it left it.
\<close>

definition try_catch ::
  "(js_error + 'a) \<times> world \<Rightarrow> (js_error \<Rightarrow> world \<Rightarrow> (js_error + 'a) \<times> world) \<Rightarrow> (js_error + 'a) \<times> world" where
  "try_catch block handler =
     (case block of (Inl error, w) \<Rightarrow> handler error w | (Inr v, w) \<Rightarrow> (Inr v, w))"

definition try_finally :: "(js_error + 'a) \<times> world \<Rightarrow> (world \<Rightarrow> world) \<Rightarrow> (js_error + 'a) \<times> world" where
  "try_finally block cleanup = (case block of (r, w) \<Rightarrow> (r, cleanup w))"

definition sum_bind :: "js_error + 'a \<Rightarrow> ('a \<Rightarrow> js_error + 'b) \<Rightarrow> js_error + 'b" where
  "sum_bind r f = (case r of Inl error \<Rightarrow> Inl error | Inr v \<Rightarrow> f v)"

definition log_event :: "event \<Rightarrow> world \<Rightarrow> world" where
  "log_event ev w = w\<lparr>trace := trace w @ [ev]\<rparr>"

section \<open>Presentation\<close>

definition setLoadingState :: "bool \<Rightarrow> page \<Rightarrow> page" where
  "setLoadingState isLoading p = p\<lparr>submit_disabled := isLoading\<rparr>"

definition showSuccessState :: "page \<Rightarrow> page" where
  "showSuccessState p =
     p\<lparr>form_hidden := True, success_shown := True, timers := timers p @ [(100, RevealSuccess)]\<rparr>"

text \<open>
  The new element is created, the first banner already in the form is removed, the new
  one becomes the first child, and its removal is scheduled 5000 ms later.
\<close>

definition showFormError :: "jsstring \<Rightarrow> page \<Rightarrow> page" where
  "showFormError msg p =
     p\<lparr>banners := (next_node p, msg) # (case banners p of [] \<Rightarrow> [] | existing # others \<Rightarrow> others),
       next_node := Suc (next_node p),
       timers := timers p @ [(5000, RemoveBanner (next_node p))]\<rparr>"

fun run_timer :: "timer_action \<Rightarrow> page \<Rightarrow> page" where
  "run_timer (RemoveBanner n) p = p\<lparr>banners := filter (\<lambda>b. fst b \<noteq> n) (banners p)\<rparr>"
| "run_timer RevealSuccess p = p"

definition resetForm :: "page \<Rightarrow> page" where
  "resetForm p =
     p\<lparr>controls := map (\<lambda>c. c\<lparr>field_value := field_default c\<rparr>) (controls p),
       newsletter_checked := True\<rparr>"

section \<open>Submission pipeline\<close>

definition formData_get :: "page \<Rightarrow> jsstring \<Rightarrow> jsstring option" where
  "formData_get p n =
     (if n = js ''newsletter''
      then (if newsletter_checked p then Some (newsletter_attr p) else None)
      else map_option field_value (find (\<lambda>c. field_name c = n) (controls p)))"

definition get_trimmed :: "env \<Rightarrow> page \<Rightarrow> jsstring \<Rightarrow> js_error + jsstring" where
  "get_trimmed e p n =
     (case formData_get p n of
        None \<Rightarrow> Inl (TypeError (nullPropertyText e (js ''trim'')))
      | Some v \<Rightarrow> Inr (trim v))"

definition collectFormData :: "env \<Rightarrow> page \<Rightarrow> js_error + form_data" where
  "collectFormData e p =
     sum_bind (get_trimmed e p (js ''firstName'')) (\<lambda>first.
     sum_bind (get_trimmed e p (js ''lastName'')) (\<lambda>last.
     sum_bind (get_trimmed e p (js ''email'')) (\<lambda>mail.
     sum_bind (get_trimmed e p (js ''company'')) (\<lambda>comp.
       Inr \<lparr>firstName = first,
            lastName = last,
            email = toLowerCase e mail,
            company = comp,
            interest = formData_get p (js ''interest''),
            newsletter = (formData_get p (js ''newsletter'') = Some (js ''on'')),
            timestamp = collectIso e,
            userAgent = navigatorUserAgent e,
            referrer = (if documentReferrer e \<noteq> [] then documentReferrer e else js ''Direct'')\<rparr>))))"

definition STORAGE_KEY :: jsstring where
  "STORAGE_KEY = js ''360evo_waitlist''"

text \<open>\<open>JSON.parse(localStorage.getItem(key) || '[]')\<close>, once \<open>getItem\<close> has returned.\<close>

definition parse_stored :: "env \<Rightarrow> item option \<Rightarrow> js_error + json" where
  "parse_stored e stored =
     (case stored of
        None \<Rightarrow> Inr (JArr [])
      | Some (Unparseable text) \<Rightarrow>
          (if text = [] then Inr (JArr []) else Inl (SyntaxError (syntaxErrorText e text)))
      | Some (Encoded v) \<Rightarrow> Inr v)"

text \<open>\<open>waitlist.some(entry => entry.email === data.email)\<close> on an array.\<close>

fun some_email :: "env \<Rightarrow> json list \<Rightarrow> jsstring \<Rightarrow> js_error + bool" where
  "some_email e [] mail = Inr False"
| "some_email e (entry # rest) mail =
     (case get_prop e entry (js ''email'') of
        Inl error \<Rightarrow> Inl error
      | Inr v \<Rightarrow> if v = Some (JStr mail) then Inr True else some_email e rest mail)"

definition new_entry :: "env \<Rightarrow> form_data \<Rightarrow> json" where
  "new_entry e d =
     JObj (data_props d @
           [(js ''id'', JStr (decimal (nowMillis e))),
            (js ''submittedAt'', JStr (submittedIso e))])"

definition fallback_try :: "env \<Rightarrow> form_data \<Rightarrow> world \<Rightarrow> (js_error + outcome) \<times> world" where
  "fallback_try e d w =
     (let w1 = log_event (GotItem STORAGE_KEY) w in
      case getItemFault e of
        Some error \<Rightarrow> (Inl error, w1)
      | None \<Rightarrow>
         (case parse_stored e (localStorage w1 STORAGE_KEY) of
            Inl error \<Rightarrow> (Inl error, w1)
          | Inr (JArr entries) \<Rightarrow>
             (case some_email e entries (email d) of
                Inl error \<Rightarrow> (Inl error, w1)
              | Inr True \<Rightarrow>
                  (Inr \<lparr>success = False,
                        message = Some (js ''This email is already on our waitlist.''),
                        data = None\<rparr>, w1)
              | Inr False \<Rightarrow>
                 (let waitlist = JArr (entries @ [new_entry e d]);
                      w2 = log_event (SetItem STORAGE_KEY waitlist) w1 in
                  case setItemFault e STORAGE_KEY waitlist of
                    Some error \<Rightarrow> (Inl error, w2)
                  | None \<Rightarrow>
                     (Inr \<lparr>success = True,
                           message = Some (js ''Successfully added to waitlist (offline mode)''),
                           data = None\<rparr>,
                      w2\<lparr>localStorage := (localStorage w2)(STORAGE_KEY \<mapsto> Encoded waitlist)\<rparr>)))
          | Inr JNull \<Rightarrow> (Inl (TypeError (nullPropertyText e (js ''some''))), w1)
          | Inr other \<Rightarrow> (Inl (TypeError (notAFunctionText e (js ''waitlist.some''))), w1)))"

definition fallbackToLocalStorage :: "env \<Rightarrow> form_data \<Rightarrow> world \<Rightarrow> (js_error + outcome) \<times> world" where
  "fallbackToLocalStorage e d w =
     try_catch (fallback_try e d w)
       (\<lambda>error w'. (Inr \<lparr>success = False,
                          message = Some (js ''Failed to save waitlist entry: '' @ err_message error),
                          data = None\<rparr>, w'))"

text \<open>
  The message of the \<open>Error\<close> thrown for a response that is not ok:
  \<open>errorData.message || `HTTP error! status: ${response.status}`\<close>.
\<close>

definition http_error_text :: "env \<Rightarrow> json option \<Rightarrow> nat \<Rightarrow> jsstring" where
  "http_error_text e m status =
     (case m of
        Some v \<Rightarrow> if truthy e (Some v) then to_string e v
                  else js ''HTTP error! status: '' @ decimal status
      | None \<Rightarrow> js ''HTTP error! status: '' @ decimal status)"

definition remote_try :: "env \<Rightarrow> form_data \<Rightarrow> world \<Rightarrow> (js_error + outcome) \<times> world" where
  "remote_try e d w =
     (let body = JObj (data_props d);
          w1 = log_event (Posted body) w in
      case fetch e body of
        Rejected error \<Rightarrow> (Inl error, w1)
      | Responded status parsed \<Rightarrow>
         (if \<not> response_ok status then
            (let errorData =
                   (case parsed of
                      Inl error \<Rightarrow> JObj [(js ''message'', JStr (js ''Network response was not ok''))]
                    | Inr v \<Rightarrow> v) in
             case get_prop e errorData (js ''message'') of
               Inl error \<Rightarrow> (Inl error, w1)
             | Inr m \<Rightarrow> (Inl (Error (http_error_text e m status)), w1))
          else
            (case parsed of
               Inl error \<Rightarrow> (Inl error, w1)
             | Inr result \<Rightarrow> (Inr \<lparr>success = True, message = None, data = Some result\<rparr>, w1))))"

definition submitToWaitlist :: "env \<Rightarrow> form_data \<Rightarrow> world \<Rightarrow> (js_error + outcome) \<times> world" where
  "submitToWaitlist e d w =
     try_catch (remote_try e d w)
       (\<lambda>error w'. fallbackToLocalStorage e d (log_event (Warned error) w'))"

section \<open>Submit handler\<close>

definition validate_required :: "control \<Rightarrow> bool \<times> control" where
  "validate_required c = (if field_required c then validateField c else (True, c))"

text \<open>\<open>result.message || 'Failed to join waitlist'\<close>\<close>

definition failure_text :: "outcome \<Rightarrow> jsstring" where
  "failure_text result =
     (case message result of
        None \<Rightarrow> js ''Failed to join waitlist''
      | Some m \<Rightarrow> if m \<noteq> [] then m else js ''Failed to join waitlist'')"

definition submit_try :: "env \<Rightarrow> world \<Rightarrow> (js_error + unit) \<times> world" where
  "submit_try e w =
     (case collectFormData e (page w) of
        Inl error \<Rightarrow> (Inl error, w)
      | Inr formData \<Rightarrow>
         (case submitToWaitlist e formData w of
            (Inl error, w1) \<Rightarrow> (Inl error, w1)
          | (Inr result, w1) \<Rightarrow>
             if success result
             then (Inr (), w1\<lparr>page := resetForm (showSuccessState (page w1))\<rparr>)
             else (Inl (Error (failure_text result)), w1)))"

text \<open>
  The handler of the submit event, until its promise settles. \<open>preventDefault\<close> has
  no effect on what is modelled. The calls into the document are taken not to throw.
\<close>

definition handleSubmit :: "env \<Rightarrow> world \<Rightarrow> (js_error + unit) \<times> world" where
  "handleSubmit e w =
     (let checked = map validate_required (controls (page w));
          isValid = list_all fst checked;
          w0 = w\<lparr>page := (page w)\<lparr>controls := map snd checked\<rparr>\<rparr> in
      if \<not> isValid
      then (Inr (), w0\<lparr>page := showFormError (js ''Please fill in all required fields correctly.'') (page w0)\<rparr>)
      else
        try_finally
          (try_catch (submit_try e (w0\<lparr>page := setLoadingState True (page w0)\<rparr>))
             (\<lambda>error w'.
                (Inr (),
                 (log_event (Logged error) w')
                   \<lparr>page := showFormError
                              (js ''Sorry, there was an error joining the waitlist. Please try again.'')
                              (page w')\<rparr>)))
          (\<lambda>w'. w'\<lparr>page := setLoadingState False (page w')\<rparr>))"

section \<open>What the specification says\<close>

text \<open>
  The shape of an email address in the words of the specification: one or more
  characters that are neither white space nor \<open>@\<close>, an \<open>@\<close>, one or more such
  characters, a full stop, one or more such characters.
\<close>

definition at_sign :: jschar where "at_sign = of_char CHR ''@''"
definition full_stop :: jschar where "full_stop = of_char CHR ''.''"

definition spec_email_char :: "jschar \<Rightarrow> bool" where
  "spec_email_char c \<longleftrightarrow> \<not> isWhiteSpace c \<and> c \<noteq> at_sign"

definition spec_email_shape :: "jsstring \<Rightarrow> bool" where
  "spec_email_shape v \<longleftrightarrow>
     (\<exists>a b c. v = a @ [at_sign] @ b @ [full_stop] @ c \<and>
        a \<noteq> [] \<and> list_all spec_email_char a \<and>
        b \<noteq> [] \<and> list_all spec_email_char b \<and>
        c \<noteq> [] \<and> list_all spec_email_char c)"

text \<open>
  The characters of a personal name in the words of the specification: ASCII letters,
  white space, apostrophe, hyphen.
\<close>

definition ascii_letter :: "jschar \<Rightarrow> bool" where
  "ascii_letter c \<longleftrightarrow> (0x61 \<le> c \<and> c \<le> 0x7A) \<or> (0x41 \<le> c \<and> c \<le> 0x5A)"

definition spec_name_char :: "jschar \<Rightarrow> bool" where
  "spec_name_char c \<longleftrightarrow> ascii_letter c \<or> isWhiteSpace c \<or> c = 0x27 \<or> c = 0x2D"

section \<open>The words a pattern matches\<close>

definition conc :: "jsstring set \<Rightarrow> jsstring set \<Rightarrow> jsstring set" where
  "conc A B = {u @ v | u v. u \<in> A \<and> v \<in> B}"

inductive_set rep :: "jsstring set \<Rightarrow> jsstring set" for A :: "jsstring set" where
  rep_none: "[] \<in> rep A"
| rep_more: "u \<in> A \<Longrightarrow> v \<in> rep A \<Longrightarrow> u @ v \<in> rep A"

fun words :: "pattern \<Rightarrow> jsstring set" where
  "words PFail = {}"
| "words PEmpty = {[]}"
| "words (PSet items) = {[c] | c. in_class items c}"
| "words (PNotSet items) = {[c] | c. \<not> in_class items c}"
| "words (PChar d) = {[d]}"
| "words (PSeq p q) = conc (words p) (words q)"
| "words (PAlt p q) = words p \<union> words q"
| "words (PStar p) = rep (words p)"
| "words (PPlus p) = conc (words p) (rep (words p))"

section \<open>The store and runs of the fallback\<close>

text \<open>
  The entries of the local store: the elements of the array kept under the key, none
  when the key is absent or its value is not an array.
\<close>

definition stored_entries :: "world \<Rightarrow> json list" where
  "stored_entries w =
     (case localStorage w STORAGE_KEY of
        Some (Encoded (JArr entries)) \<Rightarrow> entries
      | _ \<Rightarrow> [])"

definition has_email :: "jsstring \<Rightarrow> json \<Rightarrow> bool" where
  "has_email mail entry \<longleftrightarrow> own_prop entry (js ''email'') = Some (JStr mail)"


text \<open>
  Fallback submissions one after the other, each with the environment of its moment,
  and what each resolved to.
\<close>

fun fallback_run :: "(env \<times> form_data) list \<Rightarrow> world \<Rightarrow> (js_error + outcome) list \<times> world" where
  "fallback_run [] w = ([], w)"
| "fallback_run ((e, d) # steps) w =
     (case fallbackToLocalStorage e d w of
        (r, w') \<Rightarrow> (case fallback_run steps w' of (rs, w'') \<Rightarrow> (r # rs, w'')))"

definition duplicate_failure :: outcome where
  "duplicate_failure =
     \<lparr>success = False, message = Some (js ''This email is already on our waitlist.''), data = None\<rparr>"

definition offline_success :: outcome where
  "offline_success =
     \<lparr>success = True, message = Some (js ''Successfully added to waitlist (offline mode)''),
      data = None\<rparr>"

definition save_failure :: "js_error \<Rightarrow> outcome" where
  "save_failure error =
     \<lparr>success = False,
      message = Some (js ''Failed to save waitlist entry: '' @ err_message error),
      data = None\<rparr>"

text \<open>
  A remote failure in the words of the specification: the call itself fails, or it
  returns a status that is not a success.
\<close>

definition remote_failure :: "env \<Rightarrow> form_data \<Rightarrow> bool" where
  "remote_failure e d =
     (case fetch e (JObj (data_props d)) of
        Rejected error \<Rightarrow> True
      | Responded status parsed \<Rightarrow> \<not> response_ok status)"

text \<open>
  A store the fallback can read as a sequence of entries: nothing under the key, the
  empty string, or the text of an array, with no \<open>null\<close> among its elements.
\<close>

definition readable_store :: "world \<Rightarrow> bool" where
  "readable_store w \<longleftrightarrow>
     (case localStorage w STORAGE_KEY of
        None \<Rightarrow> True
      | Some (Unparseable text) \<Rightarrow> text = []
      | Some (Encoded (JArr entries)) \<Rightarrow> JNull \<notin> set entries
      | Some (Encoded other) \<Rightarrow> False)"

section \<open>Concrete pages and environments\<close>

definition text_control :: "string \<Rightarrow> string \<Rightarrow> control" where
  "text_control n v =
     \<lparr>field_name = js n, field_value = js v, field_required = True, field_default = [],
      inline_error = None, error_class = False\<rparr>"

definition form_page :: "control list \<Rightarrow> page" where
  "form_page cs =
     \<lparr>controls = cs, newsletter_checked = True, newsletter_attr = js ''on'', banners = [],
      next_node = 0, timers = [], submit_disabled = False, form_hidden = False,
      success_shown = False\<rparr>"

definition ann_page :: page where
  "ann_page =
     form_page [text_control ''firstName'' ''Ann'', text_control ''lastName'' ''Lee'',
                text_control ''email'' ''ANN@Example.com'', text_control ''company'' ''Acme'',
                text_control ''interest'' ''demo'']"


definition bad_email_page :: page where
  "bad_email_page =
     form_page [text_control ''firstName'' ''Ann'', text_control ''lastName'' ''Lee'',
                text_control ''email'' ''not-an-email'', text_control ''company'' ''Acme'',
                text_control ''interest'' ''demo'']"

definition fresh_world :: "page \<Rightarrow> world" where
  "fresh_world p = \<lparr>page = p, localStorage = Map.empty, trace = []\<rparr>"

definition ann_data :: form_data where
  "ann_data =
     \<lparr>firstName = js ''Ann'', lastName = js ''Lee'', email = js ''ann@example.com'',
      company = js ''Acme'', interest = Some (js ''demo''), newsletter = True,
      timestamp = js ''2024-01-01T00:00:00.000Z'', userAgent = js ''Mozilla/5.0'',
      referrer = js ''Direct''\<rparr>"

definition stored_world :: "page \<Rightarrow> item \<Rightarrow> world" where
  "stored_world p v = \<lparr>page = p, localStorage = [STORAGE_KEY \<mapsto> v], trace = []\<rparr>"

text \<open>An endpoint that cannot be reached, with a storage that works.\<close>

definition offline_env :: env where
  "offline_env =
     \<lparr>fetch = (\<lambda>body. Rejected (TypeError (js ''Failed to fetch''))),
      getItemFault = None,
      setItemFault = (\<lambda>k v. None),
      collectIso = js ''2024-01-01T00:00:00.000Z'',
      nowMillis = 1704067200000,
      submittedIso = js ''2024-01-01T00:00:00.001Z'',
      navigatorUserAgent = js ''Mozilla/5.0'',
      documentReferrer = [],
      lowerNonAscii = (\<lambda>s. s),
      syntaxErrorText = (\<lambda>t. js ''Unexpected token''),
      notAFunctionText = (\<lambda>f. f @ js '' is not a function''),
      nullPropertyText = (\<lambda>k. js ''Cannot read properties of null''),
      toStringText = (\<lambda>v. js ''[object Object]''),
      numberTruthy = (\<lambda>n. True)\<rparr>"

text \<open>The same, with a storage that refuses every write.\<close>

definition quota_env :: env where
  "quota_env =
     offline_env\<lparr>setItemFault := (\<lambda>k v. Some (DOMException (js ''The quota has been exceeded.'')))\<rparr>"


text \<open>An endpoint that answers 204 with no body, so that \<open>response.json()\<close> rejects.\<close>

definition no_content_env :: env where
  "no_content_env =
     offline_env\<lparr>fetch := (\<lambda>body. Responded 204 (Inl (SyntaxError (js ''Unexpected end of JSON input''))))\<rparr>"

text \<open>An endpoint that answers 201 with a JSON body.\<close>

definition online_env :: env where
  "online_env =
     offline_env\<lparr>fetch := (\<lambda>body. Responded 201 (Inr (JObj [(js ''id'', JStr (js ''1''))])))\<rparr>"

section \<open>The matcher decides membership\<close>

lemma accepts_empty_words: "accepts_empty p \<longleftrightarrow> [] \<in> words p"
  by (induction p) (auto simp: conc_def intro: rep.intros)

lemma cons_in_conc:
  "c # w \<in> conc A B \<longleftrightarrow>
     (\<exists>u v. w = u @ v \<and> c # u \<in> A \<and> v \<in> B) \<or> ([] \<in> A \<and> c # w \<in> B)"
  unfolding conc_def by (auto simp: Cons_eq_append_conv) 

lemma cons_in_rep_D:
  "x \<in> rep A \<Longrightarrow> x = c # w \<Longrightarrow> \<exists>u v. w = u @ v \<and> c # u \<in> A \<and> v \<in> rep A"
proof (induction arbitrary: rule: rep.induct)
  case rep_none
  then show ?case by simp
next
  case (rep_more u v)
  show ?case
  proof (cases u)
    case Nil
    with rep_more show ?thesis by simp
  next
    case (Cons d u')
    with rep_more.prems have "d = c" "w = u' @ v" by simp_all
    with rep_more.hyps Cons show ?thesis by blast
  qed
qed

lemma cons_in_rep:
  "c # w \<in> rep A \<longleftrightarrow> (\<exists>u v. w = u @ v \<and> c # u \<in> A \<and> v \<in> rep A)"
proof
  assume "c # w \<in> rep A"
  then show "\<exists>u v. w = u @ v \<and> c # u \<in> A \<and> v \<in> rep A"
    using cons_in_rep_D by blast
next
  assume "\<exists>u v. w = u @ v \<and> c # u \<in> A \<and> v \<in> rep A"
  then obtain u v where "w = u @ v" "c # u \<in> A" "v \<in> rep A" by blast
  then show "c # w \<in> rep A"
    using rep_more [of "c # u" A v] by simp
qed

lemma in_conc: "w \<in> conc A B \<longleftrightarrow> (\<exists>u v. w = u @ v \<and> u \<in> A \<and> v \<in> B)"
  unfolding conc_def by blast

lemma residual_conc:
  assumes "\<And>u. u \<in> A' \<longleftrightarrow> c # u \<in> A"
  shows "w \<in> conc A' B \<longleftrightarrow> (\<exists>u v. w = u @ v \<and> c # u \<in> A \<and> v \<in> B)"
  by (simp add: in_conc assms)

lemma words_residual: "w \<in> words (residual c p) \<longleftrightarrow> c # w \<in> words p"
proof (induction p arbitrary: w)
  case (PSeq p q)
  have front: "w \<in> conc (words (residual c p)) (words q) \<longleftrightarrow>
      (\<exists>u v. w = u @ v \<and> c # u \<in> words p \<and> v \<in> words q)"
    by (rule residual_conc) (rule PSeq.IH(1))
  show ?case
    by (simp add: front PSeq.IH(2) accepts_empty_words cons_in_conc)
next
  case (PStar p)
  have "w \<in> conc (words (residual c p)) (rep (words p)) \<longleftrightarrow>
      (\<exists>u v. w = u @ v \<and> c # u \<in> words p \<and> v \<in> rep (words p))"
    by (rule residual_conc) (rule PStar.IH)
  then show ?case by (simp add: cons_in_rep)
next
  case (PPlus p)
  have front: "w \<in> conc (words (residual c p)) (rep (words p)) \<longleftrightarrow>
      (\<exists>u v. w = u @ v \<and> c # u \<in> words p \<and> v \<in> rep (words p))"
    by (rule residual_conc) (rule PPlus.IH)
  have "[] \<in> words p \<and> c # w \<in> rep (words p) \<Longrightarrow>
      \<exists>u v. w = u @ v \<and> c # u \<in> words p \<and> v \<in> rep (words p)"
    by (simp add: cons_in_rep)
  then show ?case
    by (auto simp: front cons_in_conc)
qed auto

lemma regex_test_words: "regex_test p s \<longleftrightarrow> s \<in> words p"
  unfolding regex_test_def
  by (induction s arbitrary: p) (simp_all add: accepts_empty_words words_residual)

lemma rep_single: "rep {[c] | c. P c} = {w. list_all P w}"
proof (intro set_eqI iffI)
  fix w assume "w \<in> rep {[c] | c. P c}"
  then show "w \<in> {w. list_all P w}"
    by (induction rule: rep.induct) auto
next
  fix w assume "w \<in> {w. list_all P w}"
  then have "list_all P w" by simp
  then show "w \<in> rep {[c] | c. P c}"
  proof (induction w)
    case Nil
    show ?case by (rule rep_none)
  next
    case (Cons c w)
    then have "[c] \<in> {[c] | c. P c}" "w \<in> rep {[c] | c. P c}" by auto
    then have "[c] @ w \<in> rep {[c] | c. P c}" by (rule rep_more)
    then show ?case by simp
  qed
qed

lemma plus_single: "conc {[c] | c. P c} (rep {[c] | c. P c}) = {w. w \<noteq> [] \<and> list_all P w}"
  unfolding rep_single
proof (intro set_eqI iffI)
  fix w assume "w \<in> conc {[c] | c. P c} {w. list_all P w}"
  then show "w \<in> {w. w \<noteq> [] \<and> list_all P w}" by (auto simp: in_conc)
next
  fix w assume "w \<in> {w. w \<noteq> [] \<and> list_all P w}"
  then obtain c u where "w = [c] @ u" "P c" "list_all P u" by (cases w) auto
  then show "w \<in> conc {[c] | c. P c} {w. list_all P w}"
    unfolding in_conc by blast
qed

lemma words_email_part:
  "words (PPlus (PNotSet [CSpace, CChar (of_char CHR ''@'')])) = {w. w \<noteq> [] \<and> list_all spec_email_char w}"
  by (simp only: words.simps plus_single) (simp add: in_class_def spec_email_char_def [abs_def] at_sign_def)

lemma isValidEmail_shape: "isValidEmail v \<longleftrightarrow> spec_email_shape v"
  unfolding isValidEmail_def regex_test_words emailRegex_def spec_email_shape_def
  apply (simp only: words.simps(6) words.simps(5) words_email_part in_conc)
  apply (simp add: at_sign_def full_stop_def)
  apply blast
  done

lemma dropWhile_all: "(\<forall>x\<in>set (dropWhile P s). P x) \<longleftrightarrow> dropWhile P s = []"
proof (cases "dropWhile P s")
  case Nil
  show ?thesis unfolding Nil by simp
next
  case (Cons y ys)
  then have "\<not> P (hd (dropWhile P s))" by (metis hd_dropWhile list.distinct(1))
  with Cons show ?thesis by auto
qed

lemma trim_empty_iff: "trim s = [] \<longleftrightarrow> list_all isWhiteSpace s"
  by (simp add: trim_def dropWhile_all list_all_iff)

lemma trim_blank: "list_all isWhiteSpace s \<Longrightarrow> trim s = []"
  by (simp add: trim_empty_iff)

lemma isValidEmail_Nil: "\<not> isValidEmail []"
  by (simp add: isValidEmail_def regex_test_def emailRegex_def)

lemma isValidName_Nil: "\<not> isValidName []"
  by (simp add: isValidName_def regex_test_def nameRegex_def)

lemma isValidName_chars: "isValidName v \<longleftrightarrow> v \<noteq> [] \<and> list_all spec_name_char v"
  unfolding isValidName_def regex_test_words nameRegex_def
  by (simp only: words.simps plus_single)
     (auto simp: in_class_def spec_name_char_def [abs_def] ascii_letter_def)

lemma js_names_distinct:
  "js ''firstName'' \<noteq> js ''email''" "js ''lastName'' \<noteq> js ''email''"
  by (simp_all add: js_def)

lemma js_nonempty:
  "js ''This field is required'' \<noteq> []" "js ''Please enter a valid email address'' \<noteq> []"
  "js ''Please use letters only'' \<noteq> []"
  by (simp_all add: js_def)

section \<open>Validator properties\<close>

text \<open>
  C5. Whatever the name of the field, validating a raw value that is empty or has only
  white space reports \<open>This field is required\<close>: the validator returns false and shows
  that message inline. The checks for the kind of the field do not run on it: the empty
  trimmed value matches neither pattern, and yet neither of their messages is shown.
\<close>

theorem required_check_short_circuits:
  assumes "list_all isWhiteSpace (field_value field)"
  shows "validateField field =
           (False, showFieldError (clearFieldError field) (js ''This field is required''))
         \<and> \<not> isValidEmail (trim (field_value field))
         \<and> \<not> isValidName (trim (field_value field))"
  using assms
  by (simp add: validateField_def Let_def trim_blank isValidEmail_Nil isValidName_Nil js_nonempty)

theorem required_check_short_circuits_witness:
  "list_all isWhiteSpace [0x20, 0x09, 0xA0]
   \<and> validateField \<lparr>field_name = js ''email'', field_value = [0x20, 0x09, 0xA0],
        field_required = True, field_default = [], inline_error = None, error_class = False\<rparr>
     = (False, \<lparr>field_name = js ''email'', field_value = [0x20, 0x09, 0xA0],
        field_required = True, field_default = [],
        inline_error = Some (js ''This field is required''), error_class = True\<rparr>)"
proof -
  have blank: "list_all isWhiteSpace [0x20, 0x09, 0xA0]"
    by (simp add: isWhiteSpace_def)
  show ?thesis
    using blank
      required_check_short_circuits [of "\<lparr>field_name = js ''email'',
        field_value = [0x20, 0x09, 0xA0], field_required = True, field_default = [],
        inline_error = None, error_class = False\<rparr>"]
    by (simp add: showFieldError_def clearFieldError_def)
qed

text \<open>
  C6. For the field named \<open>email\<close> and a trimmed value that is not empty, validation
  succeeds exactly when the value has the shape the specification describes, and
  otherwise shows \<open>Please enter a valid email address\<close>. A value without \<open>@\<close>, and a
  value with no full stop after an \<open>@\<close>, do not have the shape.
\<close>

theorem email_field_validation:
  assumes "field_name field = js ''email''" and "trim (field_value field) \<noteq> []"
  shows "validateField field =
           (if spec_email_shape (trim (field_value field)) then (True, clearFieldError field)
            else (False, showFieldError (clearFieldError field)
                           (js ''Please enter a valid email address'')))
         \<and> (at_sign \<notin> set (trim (field_value field))
              \<longrightarrow> \<not> spec_email_shape (trim (field_value field)))
         \<and> (\<not> (\<exists>a b. trim (field_value field) = a @ at_sign # b \<and> full_stop \<in> set b)
              \<longrightarrow> \<not> spec_email_shape (trim (field_value field)))"
proof -
  have "validateField field =
           (if spec_email_shape (trim (field_value field)) then (True, clearFieldError field)
            else (False, showFieldError (clearFieldError field)
                           (js ''Please enter a valid email address'')))"
    using assms
    by (simp add: validateField_def Let_def isValidEmail_shape js_nonempty
        js_names_distinct [symmetric])
  moreover have "spec_email_shape v \<Longrightarrow> at_sign \<in> set v" for v
    by (auto simp: spec_email_shape_def)
  moreover have "spec_email_shape v \<Longrightarrow> \<exists>a b. v = a @ at_sign # b \<and> full_stop \<in> set b" for v
    unfolding spec_email_shape_def by force
  ultimately show ?thesis by blast
qed

theorem email_field_validation_witness:
  "validateField \<lparr>field_name = js ''email'', field_value = js '' ann@example.com '',
        field_required = True, field_default = [], inline_error = None, error_class = False\<rparr>
     = (True, \<lparr>field_name = js ''email'', field_value = js '' ann@example.com '',
        field_required = True, field_default = [], inline_error = None, error_class = False\<rparr>)
   \<and> validateField \<lparr>field_name = js ''email'', field_value = js ''not-an-email'',
        field_required = True, field_default = [], inline_error = None, error_class = False\<rparr>
     = (False, \<lparr>field_name = js ''email'', field_value = js ''not-an-email'',
        field_required = True, field_default = [],
        inline_error = Some (js ''Please enter a valid email address''), error_class = True\<rparr>)
   \<and> validateField \<lparr>field_name = js ''email'', field_value = js ''ann@example'',
        field_required = True, field_default = [], inline_error = None, error_class = False\<rparr>
     = (False, \<lparr>field_name = js ''email'', field_value = js ''ann@example'',
        field_required = True, field_default = [],
        inline_error = Some (js ''Please enter a valid email address''), error_class = True\<rparr>)"
proof -
  have t1: "trim (js '' ann@example.com '') = js ''ann@example.com''"
    and t2: "trim (js ''not-an-email'') = js ''not-an-email''"
    and t3: "trim (js ''ann@example'') = js ''ann@example''"
    by (simp_all add: js_def trim_def isWhiteSpace_def)
  have n: "js ''ann@example.com'' \<noteq> []" "js ''not-an-email'' \<noteq> []" "js ''ann@example'' \<noteq> []"
    by (simp_all add: js_def)
  have s1: "spec_email_shape (js ''ann@example.com'')"
    unfolding isValidEmail_shape [symmetric]
    by (simp add: isValidEmail_def regex_test_def emailRegex_def js_def in_class_def isWhiteSpace_def)
  have s2: "\<not> spec_email_shape (js ''not-an-email'')"
    unfolding isValidEmail_shape [symmetric]
    by (simp add: isValidEmail_def regex_test_def emailRegex_def js_def in_class_def isWhiteSpace_def)
  have s3: "\<not> spec_email_shape (js ''ann@example'')"
    unfolding isValidEmail_shape [symmetric]
    by (simp add: isValidEmail_def regex_test_def emailRegex_def js_def in_class_def isWhiteSpace_def)
  show ?thesis
    using
      email_field_validation [of "\<lparr>field_name = js ''email'',
        field_value = js '' ann@example.com '', field_required = True, field_default = [],
        inline_error = None, error_class = False\<rparr>"]
      email_field_validation [of "\<lparr>field_name = js ''email'',
        field_value = js ''not-an-email'', field_required = True, field_default = [],
        inline_error = None, error_class = False\<rparr>"]
      email_field_validation [of "\<lparr>field_name = js ''email'',
        field_value = js ''ann@example'', field_required = True, field_default = [],
        inline_error = None, error_class = False\<rparr>"]
    by (simp add: t1 t2 t3 n s1 s2 s3 showFieldError_def clearFieldError_def)
qed

text \<open>
  C7. For the fields named \<open>firstName\<close> and \<open>lastName\<close> and a trimmed value that is
  not empty, validation succeeds exactly when every character of the value is an ASCII
  letter, white space, an apostrophe or a hyphen, and otherwise shows
  \<open>Please use letters only\<close>.
\<close>

theorem name_field_validation:
  assumes "field_name field = js ''firstName'' \<or> field_name field = js ''lastName''"
    and "trim (field_value field) \<noteq> []"
  shows "validateField field =
           (if list_all spec_name_char (trim (field_value field)) then (True, clearFieldError field)
            else (False, showFieldError (clearFieldError field) (js ''Please use letters only'')))"
  using assms
  by (auto simp add: validateField_def Let_def isValidName_chars js_nonempty js_names_distinct)

theorem name_field_validation_witness:
  "validateField \<lparr>field_name = js ''firstName'', field_value = js ''Mary-Jane O'Brien'',
        field_required = True, field_default = [], inline_error = None, error_class = False\<rparr>
     = (True, \<lparr>field_name = js ''firstName'', field_value = js ''Mary-Jane O'Brien'',
        field_required = True, field_default = [], inline_error = None, error_class = False\<rparr>)
   \<and> validateField \<lparr>field_name = js ''lastName'', field_value = js ''R2D2'',
        field_required = True, field_default = [], inline_error = None, error_class = False\<rparr>
     = (False, \<lparr>field_name = js ''lastName'', field_value = js ''R2D2'',
        field_required = True, field_default = [],
        inline_error = Some (js ''Please use letters only''), error_class = True\<rparr>)"
proof -
  have t: "trim (js ''Mary-Jane O'Brien'') = js ''Mary-Jane O'Brien''"
    "trim (js ''R2D2'') = js ''R2D2''"
    by (simp_all add: js_def trim_def isWhiteSpace_def)
  have n: "js ''Mary-Jane O'Brien'' \<noteq> []" "js ''R2D2'' \<noteq> []"
    by (simp_all add: js_def)
  have c1: "list_all spec_name_char (js ''Mary-Jane O'Brien'')"
    by (simp add: js_def spec_name_char_def ascii_letter_def isWhiteSpace_def)
  have c2: "\<not> list_all spec_name_char (js ''R2D2'')"
    by (simp add: js_def spec_name_char_def ascii_letter_def isWhiteSpace_def)
  show ?thesis
    using
      name_field_validation [of "\<lparr>field_name = js ''firstName'',
        field_value = js ''Mary-Jane O'Brien'', field_required = True, field_default = [],
        inline_error = None, error_class = False\<rparr>"]
      name_field_validation [of "\<lparr>field_name = js ''lastName'',
        field_value = js ''R2D2'', field_required = True, field_default = [],
        inline_error = None, error_class = False\<rparr>"]
    by (simp add: t n c1 c2 showFieldError_def clearFieldError_def)
qed

section \<open>Strings written as literals\<close>

lemma of_char_word_lt: "(of_char c :: nat) < 256"
  by (metis of_char_mod_256 mod_less_divisor zero_less_numeral)

lemma of_char_word_eq: "(of_char c :: 16 word) = of_char d \<longleftrightarrow> c = d"
proof
  assume eq: "(of_char c :: 16 word) = of_char d"
  have "unat (of_nat (of_char c) :: 16 word) = of_char c" for c
  proof -
    have "(of_char c :: nat) < 65536" using of_char_word_lt [of c] by linarith
    then show ?thesis by (simp add: unat_of_nat)
  qed
  then have "(of_char c :: nat) = of_char d"
    using eq by (metis of_nat_of_char)
  then show "c = d" by simp
qed simp

lemma js_eq_iff: "js a = js b \<longleftrightarrow> a = b"
  unfolding js_def by (simp add: inj_map_eq_map inj_def of_char_word_eq)

section \<open>The fallback\<close>

lemma get_prop_not_null: "x \<noteq> JNull \<Longrightarrow> get_prop e x k = Inr (own_prop x k)"
  by (simp add: get_prop_def)

lemma some_email_no_null:
  "JNull \<notin> set entries \<Longrightarrow> some_email e entries mail = Inr (\<exists>x\<in>set entries. has_email mail x)"
  by (induction entries) (auto simp: get_prop_not_null has_email_def)


lemma some_email_True: "some_email e entries mail = Inr True \<Longrightarrow> \<exists>x\<in>set entries. has_email mail x"
  by (induction entries) (auto simp: get_prop_def has_email_def split: if_splits)

lemma some_email_False: "some_email e entries mail = Inr False \<Longrightarrow> \<forall>x\<in>set entries. \<not> has_email mail x"
  by (induction entries) (auto simp: get_prop_def has_email_def split: if_splits)

lemma log_event_simps [simp]:
  "localStorage (log_event ev w) = localStorage w"
  "page (log_event ev w) = page w"
  "trace (log_event ev w) = trace w @ [ev]"
  by (simp_all add: log_event_def)

lemma fallback_try_duplicate:
  assumes "getItemFault e = None"
    and "parse_stored e (localStorage w STORAGE_KEY) = Inr (JArr entries)"
    and "some_email e entries (email d) = Inr True"
  shows "fallback_try e d w = (Inr duplicate_failure, log_event (GotItem STORAGE_KEY) w)"
  using assms by (simp add: fallback_try_def Let_def duplicate_failure_def)

lemma fallback_try_append:
  assumes "getItemFault e = None"
    and "parse_stored e (localStorage w STORAGE_KEY) = Inr (JArr entries)"
    and "some_email e entries (email d) = Inr False"
    and "setItemFault e STORAGE_KEY (JArr (entries @ [new_entry e d])) = None"
  shows "fallback_try e d w =
     (Inr offline_success,
      (log_event (SetItem STORAGE_KEY (JArr (entries @ [new_entry e d])))
         (log_event (GotItem STORAGE_KEY) w))
       \<lparr>localStorage := (localStorage w)(STORAGE_KEY \<mapsto> Encoded (JArr (entries @ [new_entry e d])))\<rparr>)"
  using assms by (simp add: fallback_try_def Let_def offline_success_def)

lemma fallback_try_write_fault:
  assumes "getItemFault e = None"
    and "parse_stored e (localStorage w STORAGE_KEY) = Inr (JArr entries)"
    and "some_email e entries (email d) = Inr False"
    and "setItemFault e STORAGE_KEY (JArr (entries @ [new_entry e d])) = Some err"
  shows "fallback_try e d w =
     (Inl err, log_event (SetItem STORAGE_KEY (JArr (entries @ [new_entry e d])))
         (log_event (GotItem STORAGE_KEY) w))"
  using assms by (simp add: fallback_try_def Let_def)

lemma fallback_try_read_fault:
  "getItemFault e = Some err \<Longrightarrow> fallback_try e d w = (Inl err, log_event (GotItem STORAGE_KEY) w)"
  by (simp add: fallback_try_def Let_def)

lemma fallback_try_parse_fault:
  "getItemFault e = None \<Longrightarrow> parse_stored e (localStorage w STORAGE_KEY) = Inl err \<Longrightarrow>
   fallback_try e d w = (Inl err, log_event (GotItem STORAGE_KEY) w)"
  by (simp add: fallback_try_def Let_def)

text \<open>Every way the try block can end.\<close>

lemma fallback_try_cases:
  obtains
    (thrown) err w' where "fallback_try e d w = (Inl err, w')" "localStorage w' = localStorage w"
  | (duplicate) entries where "getItemFault e = None"
      "parse_stored e (localStorage w STORAGE_KEY) = Inr (JArr entries)"
      "some_email e entries (email d) = Inr True"
  | (appended) entries where "getItemFault e = None"
      "parse_stored e (localStorage w STORAGE_KEY) = Inr (JArr entries)"
      "some_email e entries (email d) = Inr False"
      "setItemFault e STORAGE_KEY (JArr (entries @ [new_entry e d])) = None"
proof (cases "getItemFault e")
  case (Some err)
  then show ?thesis using thrown [of err] by (simp add: fallback_try_read_fault)
next
  case None
  show ?thesis
  proof (cases "parse_stored e (localStorage w STORAGE_KEY)")
    case (Inl err)
    with None show ?thesis using thrown [of err] by (simp add: fallback_try_parse_fault)
  next
    case (Inr v)
    show ?thesis
    proof (cases v)
      case (JArr entries)
      show ?thesis
      proof (cases "some_email e entries (email d)")
        case (Inl err)
        with None Inr JArr show ?thesis
          using thrown [of err] by (simp add: fallback_try_def Let_def)
      next
        case found: (Inr b)
        show ?thesis
        proof (cases b)
          case True
          with None Inr JArr found show ?thesis using duplicate by simp
        next
          case False
          show ?thesis
          proof (cases "setItemFault e STORAGE_KEY (JArr (entries @ [new_entry e d]))")
            case no_fault: None
            with None Inr JArr found False show ?thesis using appended by simp
          next
            case (Some err)
            with None Inr JArr found False show ?thesis
              using thrown [of err] by (simp add: fallback_try_write_fault)
          qed
        qed
      qed
    qed (use None Inr in \<open>auto simp: fallback_try_def Let_def intro: thrown\<close>)
  qed
qed

lemma try_catch_simps [simp]:
  "try_catch (Inl err, w) h = h err w"
  "try_catch (Inr v, w) h = (Inr v, w)"
  by (simp_all add: try_catch_def)

lemma fallback_thrown:
  "fallback_try e d w = (Inl err, w') \<Longrightarrow> fallbackToLocalStorage e d w = (Inr (save_failure err), w')"
  by (simp add: fallbackToLocalStorage_def save_failure_def)

lemma fallback_duplicate:
  assumes "getItemFault e = None"
    and "parse_stored e (localStorage w STORAGE_KEY) = Inr (JArr entries)"
    and "some_email e entries (email d) = Inr True"
  shows "fallbackToLocalStorage e d w = (Inr duplicate_failure, log_event (GotItem STORAGE_KEY) w)"
  by (simp add: fallbackToLocalStorage_def fallback_try_duplicate [OF assms])

lemma fallback_append:
  assumes "getItemFault e = None"
    and "parse_stored e (localStorage w STORAGE_KEY) = Inr (JArr entries)"
    and "some_email e entries (email d) = Inr False"
    and "setItemFault e STORAGE_KEY (JArr (entries @ [new_entry e d])) = None"
  shows "fallbackToLocalStorage e d w =
     (Inr offline_success,
      (log_event (SetItem STORAGE_KEY (JArr (entries @ [new_entry e d])))
         (log_event (GotItem STORAGE_KEY) w))
       \<lparr>localStorage := (localStorage w)(STORAGE_KEY \<mapsto> Encoded (JArr (entries @ [new_entry e d])))\<rparr>)"
  by (simp add: fallbackToLocalStorage_def fallback_try_append [OF assms])

lemma fallback_returns: "\<exists>out w'. fallbackToLocalStorage e d w = (Inr out, w')"
proof (cases e d w rule: fallback_try_cases)
  case (thrown err w')
  then show ?thesis by (simp add: fallback_thrown)
next
  case (duplicate entries)
  then show ?thesis by (simp add: fallback_duplicate)
next
  case (appended entries)
  then show ?thesis by (simp add: fallback_append)
qed

lemma parse_stored_entries:
  "parse_stored e (localStorage w STORAGE_KEY) = Inr (JArr entries) \<Longrightarrow> stored_entries w = entries"
  by (auto simp: parse_stored_def stored_entries_def split: option.splits item.splits if_splits)

lemma success_distinct [simp]:
  "offline_success \<noteq> duplicate_failure" "offline_success \<noteq> save_failure err"
  "duplicate_failure \<noteq> offline_success" "save_failure err \<noteq> offline_success"
  "success offline_success" "\<not> success duplicate_failure" "\<not> success (save_failure err)"
  by (simp_all add: offline_success_def duplicate_failure_def save_failure_def)

lemma new_entry_email: "has_email mail (new_entry e d) \<longleftrightarrow> mail = email d"
  by (auto simp: has_email_def new_entry_def data_props_def js_eq_iff)

text \<open>One fallback submission, as the store sees it.\<close>

lemma stored_entries_cong: "localStorage w' = localStorage w \<Longrightarrow> stored_entries w' = stored_entries w"
  by (simp add: stored_entries_def)

lemma fallback_step:
  obtains
    (failed) err w' where "fallbackToLocalStorage e d w = (Inr (save_failure err), w')"
      "localStorage w' = localStorage w" "stored_entries w' = stored_entries w"
  | (duplicate) w' where "fallbackToLocalStorage e d w = (Inr duplicate_failure, w')"
      "localStorage w' = localStorage w" "stored_entries w' = stored_entries w"
      "\<exists>x\<in>set (stored_entries w). has_email (email d) x"
  | (appended) w' where "fallbackToLocalStorage e d w = (Inr offline_success, w')"
      "stored_entries w' = stored_entries w @ [new_entry e d]"
      "\<forall>x\<in>set (stored_entries w). \<not> has_email (email d) x"
proof (cases e d w rule: fallback_try_cases)
  case (thrown err w')
  then show ?thesis
    using failed [of err w'] stored_entries_cong [of w' w] by (simp add: fallback_thrown)
next
  case dup: (duplicate entries)
  have "\<exists>x\<in>set (stored_entries w). has_email (email d) x"
    using dup by (simp add: parse_stored_entries some_email_True)
  then show ?thesis
    using duplicate [OF fallback_duplicate [OF dup]]
      stored_entries_cong [of "log_event (GotItem STORAGE_KEY) w" w] by simp
next
  case app: (appended entries)
  have "\<forall>x\<in>set (stored_entries w). \<not> has_email (email d) x"
    using app by (simp add: parse_stored_entries some_email_False)
  moreover have "stored_entries w = entries"
    using app by (simp add: parse_stored_entries)
  moreover have "stored_entries
      ((log_event (SetItem STORAGE_KEY (JArr (entries @ [new_entry e d])))
         (log_event (GotItem STORAGE_KEY) w))
       \<lparr>localStorage := (localStorage w)(STORAGE_KEY \<mapsto> Encoded (JArr (entries @ [new_entry e d])))\<rparr>)
      = entries @ [new_entry e d]"
    by (simp add: stored_entries_def)
  ultimately show ?thesis
    using appended [OF fallback_append [OF app]] by simp
qed







lemma fallback_run_Cons:
  "fallback_run ((e, d) # steps) w =
     (fst (fallbackToLocalStorage e d w) # fst (fallback_run steps (snd (fallbackToLocalStorage e d w))),
      snd (fallback_run steps (snd (fallbackToLocalStorage e d w))))"
  by (simp split: prod.splits)




section \<open>The pipeline\<close>

lemma readable_parse:
  "readable_store w \<Longrightarrow> parse_stored e (localStorage w STORAGE_KEY) = Inr (JArr (stored_entries w))"
  by (auto simp: readable_store_def parse_stored_def stored_entries_def
      split: option.splits item.splits json.splits)

lemma readable_no_null: "readable_store w \<Longrightarrow> JNull \<notin> set (stored_entries w)"
  by (auto simp: readable_store_def stored_entries_def split: option.splits item.splits json.splits)

lemma remote_failure_throws:
  "remote_failure e d \<Longrightarrow> \<exists>err. remote_try e d w = (Inl err, log_event (Posted (JObj (data_props d))) w)"
  by (auto simp: remote_failure_def remote_try_def Let_def split: fetch_result.splits sum.splits)

lemma submit_falls_back:
  "remote_try e d w = (Inl err, w1) \<Longrightarrow>
   submitToWaitlist e d w = fallbackToLocalStorage e d (log_event (Warned err) w1)"
  by (simp add: submitToWaitlist_def)

lemma submit_remote_ok:
  assumes "fetch e (JObj (data_props d)) = Responded status (Inr result)" and "response_ok status"
  shows "submitToWaitlist e d w =
    (Inr \<lparr>success = True, message = None, data = Some result\<rparr>,
     log_event (Posted (JObj (data_props d))) w)"
  using assms by (simp add: submitToWaitlist_def remote_try_def Let_def)

lemma submit_returns: "\<exists>out w'. submitToWaitlist e d w = (Inr out, w')"
proof (cases "remote_try e d w")
  case (Pair r w1)
  show ?thesis
  proof (cases r)
    case (Inl err)
    with Pair show ?thesis
      using fallback_returns [of e d "log_event (Warned err) w1"] by (simp add: submit_falls_back)
  next
    case (Inr out)
    with Pair show ?thesis by (simp add: submitToWaitlist_def)
  qed
qed

lemma fallback_outcomes:
  "\<exists>out w'. fallbackToLocalStorage e d w = (Inr out, w')
     \<and> (out = offline_success \<or> out = duplicate_failure \<or> (\<exists>err. out = save_failure err))"
  by (cases e d w rule: fallback_step) auto

lemma submit_outcomes:
  "\<exists>out w'. submitToWaitlist e d w = (Inr out, w')
     \<and> ((\<exists>result. out = \<lparr>success = True, message = None, data = Some result\<rparr>)
          \<or> out = offline_success \<or> out = duplicate_failure \<or> (\<exists>err. out = save_failure err))"
proof (cases "remote_try e d w")
  case (Pair r w1)
  show ?thesis
  proof (cases r)
    case (Inl err)
    with Pair show ?thesis
      using fallback_outcomes [of e d "log_event (Warned err) w1"]
      by (simp only: submit_falls_back) blast
  next
    case (Inr out)
    with Pair have "\<exists>result. out = \<lparr>success = True, message = None, data = Some result\<rparr>"
      by (auto simp: remote_try_def Let_def split: fetch_result.splits sum.splits if_splits)
    with Pair Inr show ?thesis by (simp add: submitToWaitlist_def)
  qed
qed

lemma fallback_offline:
  assumes "readable_store w"
    and "\<forall>x\<in>set (stored_entries w). \<not> has_email (email d) x"
    and "setItemFault e STORAGE_KEY (JArr (stored_entries w @ [new_entry e d])) = None"
    and "getItemFault e = None"
  shows "fallbackToLocalStorage e d w =
     (Inr offline_success,
      (log_event (SetItem STORAGE_KEY (JArr (stored_entries w @ [new_entry e d])))
         (log_event (GotItem STORAGE_KEY) w))
       \<lparr>localStorage := (localStorage w)(STORAGE_KEY \<mapsto> Encoded (JArr (stored_entries w @ [new_entry e d])))\<rparr>)"
proof -
  have "some_email e (stored_entries w) (email d) = Inr False"
    using assms(1,2) by (simp add: some_email_no_null readable_no_null)
  then show ?thesis
    using assms by (intro fallback_append) (simp_all add: readable_parse)
qed

lemma fallback_rejects_duplicate:
  assumes "readable_store w"
    and "\<exists>x\<in>set (stored_entries w). has_email (email d) x"
    and "getItemFault e = None"
  shows "fallbackToLocalStorage e d w = (Inr duplicate_failure, log_event (GotItem STORAGE_KEY) w)"
proof -
  have "some_email e (stored_entries w) (email d) = Inr True"
    using assms(1,2) by (simp add: some_email_no_null readable_no_null)
  then show ?thesis
    using assms by (intro fallback_duplicate [of _ _ "stored_entries w"]) (simp_all add: readable_parse)
qed

lemma stored_entries_log [simp]: "stored_entries (log_event ev w) = stored_entries w"
  by (simp add: stored_entries_def)

lemma readable_store_log [simp]: "readable_store (log_event ev w) = readable_store w"
  by (simp add: readable_store_def)

lemma submit_offline:
  assumes "remote_failure e d" and "readable_store w"
    and "\<forall>x\<in>set (stored_entries w). \<not> has_email (email d) x"
    and "setItemFault e STORAGE_KEY (JArr (stored_entries w @ [new_entry e d])) = None"
    and "getItemFault e = None"
  shows "fst (submitToWaitlist e d w) = Inr offline_success
    \<and> localStorage (snd (submitToWaitlist e d w)) =
        (localStorage w)(STORAGE_KEY \<mapsto> Encoded (JArr (stored_entries w @ [new_entry e d])))
    \<and> stored_entries (snd (submitToWaitlist e d w)) = stored_entries w @ [new_entry e d]"
proof -
  obtain err where thrown: "remote_try e d w = (Inl err, log_event (Posted (JObj (data_props d))) w)"
    using remote_failure_throws [OF assms(1)] by blast
  let ?w1 = "log_event (Warned err) (log_event (Posted (JObj (data_props d))) w)"
  have "fallbackToLocalStorage e d ?w1 =
     (Inr offline_success,
      (log_event (SetItem STORAGE_KEY (JArr (stored_entries ?w1 @ [new_entry e d])))
         (log_event (GotItem STORAGE_KEY) ?w1))
       \<lparr>localStorage := (localStorage ?w1)(STORAGE_KEY \<mapsto> Encoded (JArr (stored_entries ?w1 @ [new_entry e d])))\<rparr>)"
    using assms by (intro fallback_offline) simp_all
  then show ?thesis
    by (simp add: submit_falls_back [OF thrown] stored_entries_def)
qed

section \<open>The submit handler\<close>

lemma validate_required_keeps [simp]:
  "field_name (snd (validate_required c)) = field_name c"
  "field_value (snd (validate_required c)) = field_value c"
  by (simp_all add: validate_required_def validateField_def Let_def showFieldError_def
      clearFieldError_def)

lemma find_validated:
  "map_option field_value (find (\<lambda>c. field_name c = n) (map (snd \<circ> validate_required) cs))
   = map_option field_value (find (\<lambda>c. field_name c = n) cs)"
  by (induction cs) simp_all

lemma formData_get_validated [simp]:
  "formData_get (setLoadingState b (p\<lparr>controls := map (snd \<circ> validate_required) (controls p)\<rparr>)) n
   = formData_get p n"
  by (simp add: formData_get_def setLoadingState_def find_validated)

lemma collect_validated [simp]:
  "collectFormData e (setLoadingState b (p\<lparr>controls := map (snd \<circ> validate_required) (controls p)\<rparr>))
   = collectFormData e p"
  by (simp add: collectFormData_def get_trimmed_def)

lemma fallback_try_page:
  "fallback_try e d (w\<lparr>page := p\<rparr>) =
     (fst (fallback_try e d w), (snd (fallback_try e d w))\<lparr>page := p\<rparr>)"
  by (simp add: fallback_try_def Let_def log_event_def
      split: option.splits sum.splits json.splits bool.splits)

lemma fallback_page:
  "fallbackToLocalStorage e d (w\<lparr>page := p\<rparr>) =
     (fst (fallbackToLocalStorage e d w), (snd (fallbackToLocalStorage e d w))\<lparr>page := p\<rparr>)"
  by (cases "fallback_try e d w")
     (simp add: fallbackToLocalStorage_def fallback_try_page try_catch_def split: sum.splits)

lemma remote_try_page:
  "remote_try e d (w\<lparr>page := p\<rparr>) =
     (fst (remote_try e d w), (snd (remote_try e d w))\<lparr>page := p\<rparr>)"
  by (simp add: remote_try_def Let_def log_event_def split: fetch_result.splits sum.splits)

lemma log_event_page: "log_event ev (w\<lparr>page := p\<rparr>) = (log_event ev w)\<lparr>page := p\<rparr>"
  by (simp add: log_event_def)

lemma submit_page:
  "submitToWaitlist e d (w\<lparr>page := p\<rparr>) =
     (fst (submitToWaitlist e d w), (snd (submitToWaitlist e d w))\<lparr>page := p\<rparr>)"
  by (cases "remote_try e d w")
     (simp add: submitToWaitlist_def remote_try_page try_catch_def log_event_page fallback_page
       split: sum.splits)

lemma submit_page_fields [simp]:
  "localStorage (snd (submitToWaitlist e d w)\<lparr>page := p\<rparr>) = localStorage (snd (submitToWaitlist e d w))"
  "trace (snd (submitToWaitlist e d w)\<lparr>page := p\<rparr>) = trace (snd (submitToWaitlist e d w))"
  by simp_all

lemma handleSubmit_invalid:
  assumes "\<not> list_all (fst \<circ> validate_required) (controls (page w))"
  shows "handleSubmit e w =
    (Inr (), w\<lparr>page := showFormError (js ''Please fill in all required fields correctly.'')
                   ((page w)\<lparr>controls := map (snd \<circ> validate_required) (controls (page w))\<rparr>)\<rparr>)"
  using assms by (simp add: handleSubmit_def Let_def list_all_iff)

lemma handleSubmit_failure:
  assumes "list_all (fst \<circ> validate_required) (controls (page w))"
    and "collectFormData e (page w) = Inr d"
    and "fst (submitToWaitlist e d w) = Inr out" and "\<not> success out"
  shows "handleSubmit e w =
    (Inr (),
     (log_event (Logged (Error (failure_text out))) (snd (submitToWaitlist e d w)))
       \<lparr>page := setLoadingState False
          (showFormError (js ''Sorry, there was an error joining the waitlist. Please try again.'')
            (setLoadingState True
              ((page w)\<lparr>controls := map (snd \<circ> validate_required) (controls (page w))\<rparr>)))\<rparr>)"
  using assms
  by (simp add: handleSubmit_def Let_def submit_try_def submit_page try_finally_def log_event_def
      list_all_iff)

lemma handleSubmit_returns: "\<exists>w'. handleSubmit e w = (Inr (), w')"
  by (simp add: handleSubmit_def Let_def try_finally_def try_catch_def split: prod.splits sum.splits)

section \<open>The concrete pages and environments\<close>

lemma trim_ascii_words:
  "trim (js ''Ann'') = js ''Ann''" "trim (js ''Lee'') = js ''Lee''"
  "trim (js ''ANN@Example.com'') = js ''ANN@Example.com''" "trim (js ''Acme'') = js ''Acme''"
  "trim (js ''demo'') = js ''demo''" "trim (js ''not-an-email'') = js ''not-an-email''"
  by (simp_all add: js_def trim_def isWhiteSpace_def)

lemma lower_ann: "toLowerCase e (js ''ANN@Example.com'') = js ''ann@example.com''"
  by (simp add: toLowerCase_def js_def)

lemma collect_ann:
  assumes "collectIso e = js ''2024-01-01T00:00:00.000Z''"
    and "navigatorUserAgent e = js ''Mozilla/5.0''" and "documentReferrer e = []"
  shows "collectFormData e ann_page = Inr ann_data"
  using assms
  by (simp add: collectFormData_def sum_bind_def get_trimmed_def formData_get_def ann_page_def
      form_page_def text_control_def js_eq_iff trim_ascii_words lower_ann ann_data_def)


lemma collect_ann_envs:
  "collectFormData offline_env ann_page = Inr ann_data"
  "collectFormData quota_env ann_page = Inr ann_data"
  "collectFormData no_content_env ann_page = Inr ann_data"
  "collectFormData online_env ann_page = Inr ann_data"
  by (rule collect_ann; simp add: offline_env_def quota_env_def no_content_env_def online_env_def)+

lemma ann_names:
  "isValidName (js ''Ann'')" "isValidName (js ''Lee'')"
  by (simp_all add: isValidName_def regex_test_def nameRegex_def js_def in_class_def isWhiteSpace_def)

lemma ann_mail: "isValidEmail (js ''ANN@Example.com'')" "\<not> isValidEmail (js ''not-an-email'')"
  by (simp_all add: isValidEmail_def regex_test_def emailRegex_def js_def in_class_def isWhiteSpace_def)

lemma js_Nil_iff: "js s = [] \<longleftrightarrow> s = []"
  by (simp add: js_def)

lemma ann_valid: "list_all (fst \<circ> validate_required) (controls ann_page)"
  by (simp add: ann_page_def form_page_def text_control_def validate_required_def validateField_def
      Let_def trim_ascii_words js_eq_iff js_Nil_iff ann_names ann_mail)

lemma bad_email_checked:
  "map (snd \<circ> validate_required) (controls bad_email_page) =
     [text_control ''firstName'' ''Ann'', text_control ''lastName'' ''Lee'',
      (text_control ''email'' ''not-an-email'')
        \<lparr>inline_error := Some (js ''Please enter a valid email address''), error_class := True\<rparr>,
      text_control ''company'' ''Acme'', text_control ''interest'' ''demo'']"
  by (simp add: bad_email_page_def form_page_def text_control_def validate_required_def
      validateField_def Let_def trim_ascii_words js_eq_iff js_Nil_iff ann_names ann_mail
      showFieldError_def clearFieldError_def)

lemma bad_email_invalid:
  "\<exists>c\<in>set (controls bad_email_page). field_required c \<and> \<not> fst (validateField c)"
  by (simp add: bad_email_page_def form_page_def text_control_def validateField_def
      Let_def trim_ascii_words js_eq_iff js_Nil_iff ann_names ann_mail)

lemma offline_fails: "remote_failure offline_env d" "remote_failure quota_env d"
  by (simp_all add: remote_failure_def offline_env_def quota_env_def)

section \<open>Pipeline properties\<close>

lemma collected_email:
  "collectFormData e p = Inr d \<Longrightarrow>
   \<exists>raw. formData_get p (js ''email'') = Some raw \<and> email d = toLowerCase e (trim raw)"
  by (auto simp: collectFormData_def sum_bind_def get_trimmed_def split: option.splits)

lemma submit_unparsed_ok:
  assumes "fetch e (JObj (data_props d)) = Responded status (Inl err)" and "response_ok status"
  shows "submitToWaitlist e d w =
     fallbackToLocalStorage e d (log_event (Warned err) (log_event (Posted (JObj (data_props d))) w))"
  using assms by (simp add: submitToWaitlist_def remote_try_def Let_def)

lemma fresh_readable [simp]:
  "readable_store (fresh_world p)" "stored_entries (fresh_world p) = []"
  "localStorage (fresh_world p) STORAGE_KEY = None" "page (fresh_world p) = p"
  "trace (fresh_world p) = []"
  by (simp_all add: readable_store_def stored_entries_def fresh_world_def)

lemma stored_world_simps [simp]:
  "localStorage (stored_world p v) STORAGE_KEY = Some v" "page (stored_world p v) = p"
  "trace (stored_world p v) = []"
  by (simp_all add: stored_world_def)

text \<open>
  C1, as the code has it. When the form data are collected as \<open>d\<close>, the remote call
  fails, the store can be read as a sequence of entries none of which has the email of
  \<open>d\<close>, and the storage accepts the write, the pipeline returns success with the message
  \<open>Successfully added to waitlist (offline mode)\<close> and the store is the old one with
  exactly one new entry at its end: the properties of \<open>d\<close> followed by \<open>id\<close> and
  \<open>submittedAt\<close>. The email of \<open>d\<close> is the raw email of the form, trimmed and
  lower-cased. Without the condition on the write the claim does not hold: a storage
  that refuses the write makes the same submission fail.
\<close>

theorem offline_submission_appends:
  assumes "collectFormData e (page w) = Inr d"
    and "remote_failure e d"
    and "getItemFault e = None" and "readable_store w"
    and "\<forall>x\<in>set (stored_entries w). \<not> has_email (email d) x"
    and "setItemFault e STORAGE_KEY (JArr (stored_entries w @ [new_entry e d])) = None"
  shows "fst (submitToWaitlist e d w) = Inr offline_success
    \<and> stored_entries (snd (submitToWaitlist e d w)) = stored_entries w @ [new_entry e d]
    \<and> localStorage (snd (submitToWaitlist e d w)) =
        (localStorage w)(STORAGE_KEY \<mapsto> Encoded (JArr (stored_entries w @ [new_entry e d])))
    \<and> new_entry e d =
        JObj (data_props d @ [(js ''id'', JStr (decimal (nowMillis e))),
                              (js ''submittedAt'', JStr (submittedIso e))])
    \<and> (\<exists>raw. formData_get (page w) (js ''email'') = Some raw \<and> email d = toLowerCase e (trim raw))"
  using submit_offline [OF assms(2,4,5,6,3)] collected_email [OF assms(1)]
  by (simp add: new_entry_def)

theorem offline_submission_appends_witness:
  "formData_get ann_page (js ''email'') = Some (js ''ANN@Example.com'')
   \<and> email ann_data = js ''ann@example.com''
   \<and> fst (submitToWaitlist offline_env ann_data (fresh_world ann_page)) = Inr offline_success
   \<and> stored_entries (snd (submitToWaitlist offline_env ann_data (fresh_world ann_page)))
       = [new_entry offline_env ann_data]
   \<and> own_prop (new_entry offline_env ann_data) (js ''email'') = Some (JStr (js ''ann@example.com''))"
proof -
  have "setItemFault offline_env STORAGE_KEY
          (JArr (stored_entries (fresh_world ann_page) @ [new_entry offline_env ann_data])) = None"
    and "getItemFault offline_env = None"
    by (simp_all add: offline_env_def)
  then have "fst (submitToWaitlist offline_env ann_data (fresh_world ann_page)) = Inr offline_success
    \<and> stored_entries (snd (submitToWaitlist offline_env ann_data (fresh_world ann_page)))
       = [new_entry offline_env ann_data]"
    using offline_submission_appends [of offline_env "fresh_world ann_page" ann_data]
    by (simp add: collect_ann_envs offline_fails)
  moreover have "formData_get ann_page (js ''email'') = Some (js ''ANN@Example.com'')"
    by (simp add: formData_get_def ann_page_def form_page_def text_control_def js_eq_iff)
  moreover have "own_prop (new_entry offline_env ann_data) (js ''email'') = Some (JStr (js ''ann@example.com''))"
    using new_entry_email [of "js ''ann@example.com''" offline_env ann_data]
    by (simp add: has_email_def ann_data_def)
  ultimately show ?thesis by (simp add: ann_data_def)
qed

theorem offline_submission_counterexample:
  "list_all (fst \<circ> validate_required) (controls ann_page)
   \<and> collectFormData quota_env ann_page = Inr ann_data
   \<and> remote_failure quota_env ann_data
   \<and> stored_entries (fresh_world ann_page) = []
   \<and> fst (submitToWaitlist quota_env ann_data (fresh_world ann_page))
       = Inr (save_failure (DOMException (js ''The quota has been exceeded.'')))
   \<and> localStorage (snd (submitToWaitlist quota_env ann_data (fresh_world ann_page))) STORAGE_KEY = None"
proof -
  obtain err where thrown: "remote_try quota_env ann_data (fresh_world ann_page) =
      (Inl err, log_event (Posted (JObj (data_props ann_data))) (fresh_world ann_page))"
    using remote_failure_throws [OF offline_fails(2)] by blast
  let ?w1 = "log_event (Warned err) (log_event (Posted (JObj (data_props ann_data))) (fresh_world ann_page))"
  have "fallback_try quota_env ann_data ?w1 =
     (Inl (DOMException (js ''The quota has been exceeded.'')),
      log_event (SetItem STORAGE_KEY (JArr ([] @ [new_entry quota_env ann_data])))
         (log_event (GotItem STORAGE_KEY) ?w1))"
    by (rule fallback_try_write_fault)
       (simp_all add: quota_env_def offline_env_def parse_stored_def)
  then have "fallbackToLocalStorage quota_env ann_data ?w1 =
     (Inr (save_failure (DOMException (js ''The quota has been exceeded.''))),
      log_event (SetItem STORAGE_KEY (JArr ([] @ [new_entry quota_env ann_data])))
         (log_event (GotItem STORAGE_KEY) ?w1))"
    by (rule fallback_thrown)
  then show ?thesis
    by (simp add: submit_falls_back [OF thrown] collect_ann_envs offline_fails ann_valid)
qed





text \<open>
  C3. Whatever the data, the endpoint, the storage and its faults, the pipeline and its
  fallback return an outcome and throw nothing: the success with the payload of the
  server, the offline success, the duplicate failure or the failure to save. The submit
  handler throws nothing.
\<close>

theorem pipeline_always_resolves:
  "(\<exists>out w'. submitToWaitlist e d w = (Inr out, w')
      \<and> ((\<exists>result. out = \<lparr>success = True, message = None, data = Some result\<rparr>)
           \<or> out = offline_success \<or> out = duplicate_failure \<or> (\<exists>err. out = save_failure err)))
   \<and> (\<exists>out w'. fallbackToLocalStorage e d w = (Inr out, w')
      \<and> (out = offline_success \<or> out = duplicate_failure \<or> (\<exists>err. out = save_failure err)))
   \<and> (\<exists>w'. handleSubmit e w = (Inr (), w'))"
  using submit_outcomes [of e d w] fallback_outcomes [of e d w] handleSubmit_returns [of e w]
  by blast

text \<open>
  C4, as the code has it. When the endpoint answers with a success status and a body
  that parses as JSON, the pipeline returns success with that payload, the storage is
  as before, and the only thing it did is the request. A success status alone is not
  enough: with a body that does not parse the pipeline falls back to the local store.
\<close>

theorem remote_success_skips_store:
  assumes "fetch e (JObj (data_props d)) = Responded status (Inr result)" and "response_ok status"
  shows "submitToWaitlist e d w =
           (Inr \<lparr>success = True, message = None, data = Some result\<rparr>,
            log_event (Posted (JObj (data_props d))) w)
    \<and> localStorage (snd (submitToWaitlist e d w)) = localStorage w
    \<and> trace (snd (submitToWaitlist e d w)) = trace w @ [Posted (JObj (data_props d))]"
  using submit_remote_ok [OF assms] by simp

theorem remote_success_skips_store_witness:
  "response_ok 201
   \<and> submitToWaitlist online_env ann_data (fresh_world ann_page) =
       (Inr \<lparr>success = True, message = None, data = Some (JObj [(js ''id'', JStr (js ''1''))])\<rparr>,
        log_event (Posted (JObj (data_props ann_data))) (fresh_world ann_page))
   \<and> localStorage (snd (submitToWaitlist online_env ann_data (fresh_world ann_page)))
       = localStorage (fresh_world ann_page)"
proof -
  have ok: "response_ok 201" by (simp add: response_ok_def)
  have got: "fetch online_env (JObj (data_props ann_data)) =
      Responded 201 (Inr (JObj [(js ''id'', JStr (js ''1''))]))"
    by (simp add: online_env_def)
  show ?thesis
    using remote_success_skips_store [OF got ok, of "fresh_world ann_page"] ok by simp
qed

theorem remote_success_counterexample:
  "response_ok 204
   \<and> fetch no_content_env (JObj (data_props ann_data))
       = Responded 204 (Inl (SyntaxError (js ''Unexpected end of JSON input'')))
   \<and> localStorage (fresh_world ann_page) STORAGE_KEY = None
   \<and> fst (submitToWaitlist no_content_env ann_data (fresh_world ann_page)) = Inr offline_success
   \<and> localStorage (snd (submitToWaitlist no_content_env ann_data (fresh_world ann_page))) STORAGE_KEY
       = Some (Encoded (JArr [new_entry no_content_env ann_data]))"
proof -
  have ok: "response_ok 204" by (simp add: response_ok_def)
  have got: "fetch no_content_env (JObj (data_props ann_data))
       = Responded 204 (Inl (SyntaxError (js ''Unexpected end of JSON input'')))"
    by (simp add: no_content_env_def)
  let ?w1 = "log_event (Warned (SyntaxError (js ''Unexpected end of JSON input'')))
      (log_event (Posted (JObj (data_props ann_data))) (fresh_world ann_page))"
  have "fallbackToLocalStorage no_content_env ann_data ?w1 =
     (Inr offline_success,
      (log_event (SetItem STORAGE_KEY (JArr (stored_entries ?w1 @ [new_entry no_content_env ann_data])))
         (log_event (GotItem STORAGE_KEY) ?w1))
       \<lparr>localStorage := (localStorage ?w1)(STORAGE_KEY \<mapsto>
           Encoded (JArr (stored_entries ?w1 @ [new_entry no_content_env ann_data])))\<rparr>)"
    by (rule fallback_offline) (simp_all add: no_content_env_def offline_env_def)
  then show ?thesis
    using ok got by (simp add: submit_unparsed_ok [OF got ok])
qed

lemma showFormError_banners:
  "banners (showFormError msg p) =
     (next_node p, msg) # (case banners p of [] \<Rightarrow> [] | existing # others \<Rightarrow> others)"
  "timers (showFormError msg p) = timers p @ [(5000, RemoveBanner (next_node p))]"
  "submit_disabled (showFormError msg p) = submit_disabled p"
  by (simp_all add: showFormError_def)

lemma single_banner:
  "length bs \<le> 1 \<Longrightarrow> (case bs of [] \<Rightarrow> [] | existing # others \<Rightarrow> others) = []"
  by (cases bs) simp_all

lemma invalid_iff:
  "(\<exists>c\<in>set cs. field_required c \<and> \<not> fst (validateField c))
   \<longleftrightarrow> \<not> list_all (fst \<circ> validate_required) cs"
  by (auto simp: list_all_iff validate_required_def)

text \<open>
  C8. When a required field fails validation, the handler shows the banner
  \<open>Please fill in all required fields correctly.\<close> (the only banner, when there was
  at most one before) with the inline errors of the fields, and stops: nothing is
  posted and the storage is neither read nor written.
\<close>

theorem invalid_submit_aborts:
  assumes "\<exists>c\<in>set (controls (page w)). field_required c \<and> \<not> fst (validateField c)"
  shows "handleSubmit e w =
           (Inr (), w\<lparr>page := showFormError (js ''Please fill in all required fields correctly.'')
                          ((page w)\<lparr>controls := map (snd \<circ> validate_required) (controls (page w))\<rparr>)\<rparr>)
    \<and> trace (snd (handleSubmit e w)) = trace w
    \<and> localStorage (snd (handleSubmit e w)) = localStorage w
    \<and> banners (page (snd (handleSubmit e w))) =
        (next_node (page w), js ''Please fill in all required fields correctly.'')
          # (case banners (page w) of [] \<Rightarrow> [] | existing # others \<Rightarrow> others)
    \<and> (length (banners (page w)) \<le> 1 \<longrightarrow>
          banners (page (snd (handleSubmit e w))) =
            [(next_node (page w), js ''Please fill in all required fields correctly.'')])"
proof -
  have "\<not> list_all (fst \<circ> validate_required) (controls (page w))"
    using assms by (simp add: invalid_iff)
  then show ?thesis
    by (simp add: handleSubmit_invalid showFormError_banners single_banner)
qed

theorem invalid_submit_aborts_witness:
  "(\<exists>c\<in>set (controls (page (fresh_world bad_email_page))).
       field_required c \<and> \<not> fst (validateField c))
   \<and> trace (snd (handleSubmit online_env (fresh_world bad_email_page))) = []
   \<and> localStorage (snd (handleSubmit online_env (fresh_world bad_email_page))) = Map.empty
   \<and> banners (page (snd (handleSubmit online_env (fresh_world bad_email_page))))
       = [(0, js ''Please fill in all required fields correctly.'')]
   \<and> map inline_error (controls (page (snd (handleSubmit online_env (fresh_world bad_email_page)))))
       = [None, None, Some (js ''Please enter a valid email address''), None, None]"
proof -
  have bad: "\<exists>c\<in>set (controls (page (fresh_world bad_email_page))).
       field_required c \<and> \<not> fst (validateField c)"
    using bad_email_invalid by simp
  from invalid_submit_aborts [OF bad, of online_env]
  have eq: "handleSubmit online_env (fresh_world bad_email_page) =
      (Inr (), (fresh_world bad_email_page)
         \<lparr>page := showFormError (js ''Please fill in all required fields correctly.'')
            ((page (fresh_world bad_email_page))
               \<lparr>controls := map (snd \<circ> validate_required)
                  (controls (page (fresh_world bad_email_page)))\<rparr>)\<rparr>)"
    by (rule conjunct1)
  have "trace (snd (handleSubmit online_env (fresh_world bad_email_page))) = []"
    by (simp add: eq)
  moreover have "localStorage (snd (handleSubmit online_env (fresh_world bad_email_page))) = Map.empty"
    by (simp add: eq) (simp add: fresh_world_def)
  moreover have "banners (page (snd (handleSubmit online_env (fresh_world bad_email_page))))
       = [(0, js ''Please fill in all required fields correctly.'')]"
    by (simp add: eq showFormError_def) (simp add: bad_email_page_def form_page_def)
  moreover have "map inline_error
      (controls (page (snd (handleSubmit online_env (fresh_world bad_email_page)))))
       = [None, None, Some (js ''Please enter a valid email address''), None, None]"
    by (simp add: eq showFormError_def bad_email_checked text_control_def)
  ultimately show ?thesis using bad by blast
qed

lemma corrupted_try:
  assumes "localStorage w STORAGE_KEY = Some (Unparseable t)" and "t \<noteq> []"
  shows "\<exists>err. fallback_try e d w = (Inl err, log_event (GotItem STORAGE_KEY) w)
           \<and> (getItemFault e = None \<longrightarrow> err = SyntaxError (syntaxErrorText e t))"
proof (cases "getItemFault e")
  case None
  have "parse_stored e (localStorage w STORAGE_KEY) = Inl (SyntaxError (syntaxErrorText e t))"
    using assms by (simp add: parse_stored_def)
  with None show ?thesis by (simp add: fallback_try_parse_fault)
next
  case (Some err)
  then show ?thesis by (simp add: fallback_try_read_fault)
qed

lemma corrupted_fallback:
  assumes "localStorage w STORAGE_KEY = Some (Unparseable t)" and "t \<noteq> []"
  shows "\<exists>err. fallbackToLocalStorage e d w = (Inr (save_failure err), log_event (GotItem STORAGE_KEY) w)
           \<and> (getItemFault e = None \<longrightarrow> err = SyntaxError (syntaxErrorText e t))"
  using corrupted_try [OF assms, of e d] by (auto simp: fallback_thrown)

lemma corrupted_run:
  assumes "localStorage w STORAGE_KEY = Some (Unparseable t)" and "t \<noteq> []"
  shows "(\<forall>r\<in>set (fst (fallback_run steps w)). \<exists>err. r = Inr (save_failure err))
         \<and> localStorage (snd (fallback_run steps w)) = localStorage w"
  using assms(1)
proof (induction steps arbitrary: w)
  case Nil
  show ?case by simp
next
  case (Cons step steps)
  obtain e d where step: "step = (e, d)" by (cases step)
  obtain err where one: "fallbackToLocalStorage e d w =
      (Inr (save_failure err), log_event (GotItem STORAGE_KEY) w)"
    using corrupted_fallback [OF Cons.prems assms(2), of e d] by blast
  have "localStorage (log_event (GotItem STORAGE_KEY) w) STORAGE_KEY = Some (Unparseable t)"
    using Cons.prems by simp
  from Cons.IH [OF this] show ?case
    unfolding step fallback_run_Cons one by auto
qed

lemma thrown_keeps_store:
  assumes "fst (fallback_try e d w) = Inl err"
  shows "fst (fallbackToLocalStorage e d w) = Inr (save_failure err)
         \<and> localStorage (snd (fallbackToLocalStorage e d w)) = localStorage w"
proof (cases e d w rule: fallback_try_cases)
  case (thrown err' w')
  with assms show ?thesis by (simp add: fallback_thrown)
next
  case (duplicate entries)
  with assms show ?thesis by (simp add: fallback_try_duplicate)
next
  case (appended entries)
  with assms show ?thesis by (simp add: fallback_try_append)
qed

lemma write_fault_thrown:
  assumes "getItemFault e = None" and "readable_store w"
    and "\<forall>x\<in>set (stored_entries w). \<not> has_email (email d) x"
    and "setItemFault e STORAGE_KEY (JArr (stored_entries w @ [new_entry e d])) = Some err"
  shows "fst (fallback_try e d w) = Inl err"
proof -
  have "some_email e (stored_entries w) (email d) = Inr False"
    using assms(2,3) by (simp add: some_email_no_null readable_no_null)
  then show ?thesis
    using assms fallback_try_write_fault [of e w "stored_entries w" d err]
    by (simp add: readable_parse)
qed

lemma submit_remote_down:
  "remote_failure e d \<Longrightarrow>
   \<exists>err. submitToWaitlist e d w =
      fallbackToLocalStorage e d (log_event (Warned err) (log_event (Posted (JObj (data_props d))) w))"
  using remote_failure_throws [of e d w] by (auto simp: submit_falls_back)

lemma ann_page_banners [simp]: "banners ann_page = []" "next_node ann_page = 0"
  by (simp_all add: ann_page_def form_page_def)

text \<open>
  C9. A submission whose pipeline outcome is a failure with a message is to show that
  message in the banner. The code builds the message and loses it. With the form of Ann,
  the endpoint down and a store that already holds her email, the pipeline resolves to
  the failure \<open>This email is already on our waitlist.\<close>; the handler puts that text
  into the \<open>Error\<close> it throws, which its own catch writes to the console, and
  the one banner on the page reads \<open>Sorry, there was an error joining the waitlist.
  Please try again.\<close>, with its removal scheduled 5000 ms later.
\<close>

theorem duplicate_failure_banner_generic:
  "fst (submitToWaitlist offline_env ann_data
          (stored_world ann_page (Encoded (JArr [new_entry offline_env ann_data]))))
     = Inr duplicate_failure
   \<and> message duplicate_failure = Some (js ''This email is already on our waitlist.'')
   \<and> banners (page (snd (handleSubmit offline_env
          (stored_world ann_page (Encoded (JArr [new_entry offline_env ann_data]))))))
     = [(0, js ''Sorry, there was an error joining the waitlist. Please try again.'')]
   \<and> last (trace (snd (handleSubmit offline_env
          (stored_world ann_page (Encoded (JArr [new_entry offline_env ann_data]))))))
     = Logged (Error (js ''This email is already on our waitlist.''))
   \<and> timers (page (snd (handleSubmit offline_env
          (stored_world ann_page (Encoded (JArr [new_entry offline_env ann_data]))))))
     = [(5000, RemoveBanner 0)]
   \<and> js ''Sorry, there was an error joining the waitlist. Please try again.''
       \<noteq> js ''This email is already on our waitlist.''"
proof -
  let ?w = "stored_world ann_page (Encoded (JArr [new_entry offline_env ann_data]))"
  have valid: "list_all (fst \<circ> validate_required) (controls (page ?w))"
    using ann_valid by simp
  have collect: "collectFormData offline_env (page ?w) = Inr ann_data"
    by (simp add: collect_ann_envs)
  obtain err where sub: "submitToWaitlist offline_env ann_data ?w =
      fallbackToLocalStorage offline_env ann_data
        (log_event (Warned err) (log_event (Posted (JObj (data_props ann_data))) ?w))"
    using submit_remote_down [OF offline_fails(1)] by blast
  let ?w1 = "log_event (Warned err) (log_event (Posted (JObj (data_props ann_data))) ?w)"
  have entries: "stored_entries ?w1 = [new_entry offline_env ann_data]"
    by (simp add: stored_entries_def)
  have "readable_store ?w1"
    by (simp add: readable_store_def new_entry_def)
  moreover have "\<exists>x\<in>set (stored_entries ?w1). has_email (email ann_data) x"
    by (simp only: entries) (simp add: new_entry_email)
  moreover have "getItemFault offline_env = None"
    by (simp add: offline_env_def)
  ultimately have "fallbackToLocalStorage offline_env ann_data ?w1
      = (Inr duplicate_failure, log_event (GotItem STORAGE_KEY) ?w1)"
    by (rule fallback_rejects_duplicate)
  then have out: "fst (submitToWaitlist offline_env ann_data ?w) = Inr duplicate_failure"
    by (simp add: sub)
  have failed: "\<not> success duplicate_failure" by simp
  have shown: "banners (page (snd (handleSubmit offline_env ?w)))
     = [(0, js ''Sorry, there was an error joining the waitlist. Please try again.'')]"
    by (simp add: handleSubmit_failure [OF valid collect out failed] showFormError_banners
        setLoadingState_def)
  have logged: "last (trace (snd (handleSubmit offline_env ?w)))
     = Logged (Error (js ''This email is already on our waitlist.''))"
    by (simp add: handleSubmit_failure [OF valid collect out failed] failure_text_def
        duplicate_failure_def js_Nil_iff)
  have scheduled: "timers (page (snd (handleSubmit offline_env ?w))) = [(5000, RemoveBanner 0)]"
    by (simp add: handleSubmit_failure [OF valid collect out failed] showFormError_banners
        setLoadingState_def)
       (simp add: ann_page_def form_page_def)
  show ?thesis
    using out shown logged scheduled by (simp add: duplicate_failure_def js_eq_iff)
qed

text \<open>
  C10, as the code has it. When the value under the key is a text that is not empty and
  that \<open>JSON.parse\<close> rejects, the fallback returns a failure whose message is
  \<open>Failed to save waitlist entry: \<close> followed by the message of the error, the
  storage is as before, and every later fallback submission fails in the same way. The
  same holds for whatever the try block throws, a faulty read or write of the storage
  among them. The empty string is not valid JSON either, but the code reads it as an
  empty store and overwrites it.
\<close>

theorem storage_failures_reported:
  assumes "localStorage w STORAGE_KEY = Some (Unparseable t)" and "t \<noteq> []"
  shows "(\<exists>err. fallbackToLocalStorage e d w =
                  (Inr (save_failure err), log_event (GotItem STORAGE_KEY) w)
              \<and> (getItemFault e = None \<longrightarrow> err = SyntaxError (syntaxErrorText e t)))
    \<and> localStorage (snd (fallbackToLocalStorage e d w)) = localStorage w
    \<and> (\<forall>r\<in>set (fst (fallback_run steps w)). \<exists>err. r = Inr (save_failure err))
    \<and> localStorage (snd (fallback_run steps w)) = localStorage w
    \<and> (fst (fallback_try e2 d2 w2) = Inl err2 \<longrightarrow>
          fst (fallbackToLocalStorage e2 d2 w2) = Inr (save_failure err2)
          \<and> localStorage (snd (fallbackToLocalStorage e2 d2 w2)) = localStorage w2)
    \<and> (getItemFault e2 = Some err2 \<longrightarrow> fst (fallback_try e2 d2 w2) = Inl err2)
    \<and> (getItemFault e2 = None \<and> readable_store w2
          \<and> (\<forall>x\<in>set (stored_entries w2). \<not> has_email (email d2) x)
          \<and> setItemFault e2 STORAGE_KEY (JArr (stored_entries w2 @ [new_entry e2 d2])) = Some err2
          \<longrightarrow> fst (fallback_try e2 d2 w2) = Inl err2)
    \<and> message (save_failure err2) = Some (js ''Failed to save waitlist entry: '' @ err_message err2)"
proof -
  from corrupted_fallback [OF assms, of e d]
  have one: "\<exists>err. fallbackToLocalStorage e d w =
                  (Inr (save_failure err), log_event (GotItem STORAGE_KEY) w)
              \<and> (getItemFault e = None \<longrightarrow> err = SyntaxError (syntaxErrorText e t))" .
  then have kept: "localStorage (snd (fallbackToLocalStorage e d w)) = localStorage w"
    by auto
  have run: "(\<forall>r\<in>set (fst (fallback_run steps w)). \<exists>err. r = Inr (save_failure err))
         \<and> localStorage (snd (fallback_run steps w)) = localStorage w"
    using assms by (rule corrupted_run)
  have read: "getItemFault e2 = Some err2 \<longrightarrow> fst (fallback_try e2 d2 w2) = Inl err2"
    by (simp add: fallback_try_read_fault)
  have msg: "message (save_failure err2) = Some (js ''Failed to save waitlist entry: '' @ err_message err2)"
    by (simp add: save_failure_def)
  show ?thesis
    using one kept run read msg thrown_keeps_store [of e2 d2 w2 err2]
      write_fault_thrown [of e2 w2 d2 err2]
    by blast
qed

theorem storage_failures_reported_witness:
  "localStorage (stored_world ann_page (Unparseable (js ''{oops''))) STORAGE_KEY
     = Some (Unparseable (js ''{oops''))
   \<and> js ''{oops'' \<noteq> []
   \<and> fallbackToLocalStorage offline_env ann_data (stored_world ann_page (Unparseable (js ''{oops'')))
     = (Inr (save_failure (SyntaxError (js ''Unexpected token''))),
        log_event (GotItem STORAGE_KEY) (stored_world ann_page (Unparseable (js ''{oops''))))
   \<and> localStorage (snd (fallback_run [(offline_env, ann_data), (quota_env, ann_data)]
        (stored_world ann_page (Unparseable (js ''{oops'')))))
     = localStorage (stored_world ann_page (Unparseable (js ''{oops'')))
   \<and> fst (fallbackToLocalStorage quota_env ann_data (fresh_world ann_page))
     = Inr (save_failure (DOMException (js ''The quota has been exceeded.'')))
   \<and> localStorage (snd (fallbackToLocalStorage quota_env ann_data (fresh_world ann_page)))
     = localStorage (fresh_world ann_page)"
proof -
  let ?w = "stored_world ann_page (Unparseable (js ''{oops''))"
  have h1: "localStorage ?w STORAGE_KEY = Some (Unparseable (js ''{oops''))" by simp
  have h2: "js ''{oops'' \<noteq> []" by (simp add: js_def)
  have q: "getItemFault quota_env = None \<and> readable_store (fresh_world ann_page)
      \<and> (\<forall>x\<in>set (stored_entries (fresh_world ann_page)). \<not> has_email (email ann_data) x)
      \<and> setItemFault quota_env STORAGE_KEY
           (JArr (stored_entries (fresh_world ann_page) @ [new_entry quota_env ann_data]))
          = Some (DOMException (js ''The quota has been exceeded.''))"
    by (simp add: quota_env_def offline_env_def)
  have o: "getItemFault offline_env = None" "syntaxErrorText offline_env (js ''{oops'') = js ''Unexpected token''"
    by (simp_all add: offline_env_def)
  show ?thesis
    using storage_failures_reported [OF h1 h2, of offline_env ann_data
        "[(offline_env, ann_data), (quota_env, ann_data)]" quota_env ann_data "fresh_world ann_page"
        "DOMException (js ''The quota has been exceeded.'')"] h1 h2 q o
    by auto
qed

theorem storage_failures_counterexample:
  "localStorage (stored_world ann_page (Unparseable [])) STORAGE_KEY = Some (Unparseable [])
   \<and> fst (fallbackToLocalStorage offline_env ann_data (stored_world ann_page (Unparseable [])))
     = Inr offline_success
   \<and> localStorage (snd (fallbackToLocalStorage offline_env ann_data
        (stored_world ann_page (Unparseable [])))) STORAGE_KEY
     = Some (Encoded (JArr [new_entry offline_env ann_data]))"
proof -
  let ?w = "stored_world ann_page (Unparseable [])"
  have entries: "stored_entries ?w = []" by (simp add: stored_entries_def)
  have "readable_store ?w" by (simp add: readable_store_def)
  moreover have "\<forall>x\<in>set (stored_entries ?w). \<not> has_email (email ann_data) x"
    by (simp add: entries)
  moreover have "setItemFault offline_env STORAGE_KEY
      (JArr (stored_entries ?w @ [new_entry offline_env ann_data])) = None"
    and "getItemFault offline_env = None"
    by (simp_all add: offline_env_def)
  ultimately have "fallbackToLocalStorage offline_env ann_data ?w =
     (Inr offline_success,
      (log_event (SetItem STORAGE_KEY (JArr (stored_entries ?w @ [new_entry offline_env ann_data])))
         (log_event (GotItem STORAGE_KEY) ?w))
       \<lparr>localStorage := (localStorage ?w)(STORAGE_KEY \<mapsto>
           Encoded (JArr (stored_entries ?w @ [new_entry offline_env ann_data])))\<rparr>)"
    by (rule fallback_offline)
  then show ?thesis by (simp add: entries)
qed

end
